theory Spec2Isabelle
  imports Complex_Main "HOL-Library.Word"
begin

unbundle bit_operations_syntax

chapter \<open>BATHRON DEX: HTLC atomic-swap settlement core\<close>

text \<open>
  A shallow embedding of the Python sources under \<^verbatim>\<open>contrib/dex\<close>:
  \<^item> \<^verbatim>\<open>sdk/server.py\<close>: the timelock constants and their assertion, \<^verbatim>\<open>/api/register\<close>,
    \<^verbatim>\<open>/api/swap/<hashlock>\<close>;
  \<^item> \<^verbatim>\<open>sdk/htlc_wrapper.py\<close>: \<^verbatim>\<open>verify_preimage\<close>, \<^verbatim>\<open>is_claimable\<close>, \<^verbatim>\<open>is_refundable\<close>;
  \<^item> \<^verbatim>\<open>swap_watcher.py\<close>: \<^verbatim>\<open>compute_swap_state\<close>, \<^verbatim>\<open>derive_states\<close>, \<^verbatim>\<open>/api/register_taker\<close>;
  \<^item> \<^verbatim>\<open>lp_watcher.py\<close>: \<^verbatim>\<open>process_new_lock\<close>, \<^verbatim>\<open>try_create_kpiv_htlc\<close>, \<^verbatim>\<open>check_for_reveals\<close>,
    \<^verbatim>\<open>claim_usdc\<close>;
  \<^item> \<^verbatim>\<open>lp_bot.py\<close>: \<^verbatim>\<open>extract_preimage_from_scriptsig\<close>.

  Python integers are \<open>int\<close>, byte strings are lists of \<open>8 word\<close>, text strings are
  \<open>string\<close>. Amounts are Python floats in the source; no property below depends on their
  rounding and they are carried as \<open>real\<close>. What a chain, the daemon or an HTTP peer
  answers is an input of the model; what the code sends to them is recorded in a list
  of actions.
\<close>

section \<open>Python library functions used by the sources\<close>

type_synonym byte = "8 word"

subsection \<open>Strings\<close>

text \<open>\<^verbatim>\<open>bool(s)\<close> for an optional string: \<^verbatim>\<open>None\<close> and \<^verbatim>\<open>""\<close> are falsy.\<close>

definition truthy :: "string option \<Rightarrow> bool" where
  "truthy v = (case v of None \<Rightarrow> False | Some s \<Rightarrow> s \<noteq> [])"

definition startswith :: "string \<Rightarrow> string \<Rightarrow> bool" where
  "startswith s p = (take (length p) s = p)"

text \<open>The idiom \<^verbatim>\<open>h[2:] if h.startswith("0x") else h\<close>.\<close>

definition strip_0x :: "string \<Rightarrow> string" where
  "strip_0x h = (if startswith h ''0x'' then drop 2 h else h)"

text \<open>\<^verbatim>\<open>str.lower\<close> on the ASCII range (the only letters a hex digest can be equal to).\<close>

definition char_lower :: "char \<Rightarrow> char" where
  "char_lower c =
     (case map_of (zip ''ABCDEFGHIJKLMNOPQRSTUVWXYZ'' ''abcdefghijklmnopqrstuvwxyz'') c of
        None \<Rightarrow> c
      | Some l \<Rightarrow> l)"

definition lower :: "string \<Rightarrow> string" where
  "lower s = map char_lower s"

text \<open>\<^verbatim>\<open>str(n)\<close> for an integer, as an f-string prints it.\<close>

definition digit_char :: "nat \<Rightarrow> char" where
  "digit_char d = ''0123456789'' ! d"

function str_nat :: "nat \<Rightarrow> string" where
  "str_nat n = (if n < 10 then [digit_char n] else str_nat (n div 10) @ [digit_char (n mod 10)])"
  by pat_completeness auto
termination
  by (relation "measure id") auto

declare str_nat.simps [simp del]

definition str_int :: "int \<Rightarrow> string" where
  "str_int i = (if i < 0 then CHR ''-'' # str_nat (nat (- i)) else str_nat (nat i))"

subsection \<open>\<^verbatim>\<open>bytes.fromhex\<close> and \<^verbatim>\<open>bytes.hex\<close>\<close>

definition hexval :: "char \<Rightarrow> nat option" where
  "hexval c =
     (let n = (of_char c :: nat) in
      if 48 \<le> n \<and> n \<le> 57 then Some (n - 48)
      else if 97 \<le> n \<and> n \<le> 102 then Some (n - 87)
      else if 65 \<le> n \<and> n \<le> 70 then Some (n - 55)
      else None)"

text \<open>ASCII whitespace: space, \<^verbatim>\<open>\t \n \v \f \r\<close>.\<close>

definition py_isspace :: "char \<Rightarrow> bool" where
  "py_isspace c = ((of_char c :: nat) = 32 \<or> (9 \<le> (of_char c :: nat) \<and> (of_char c :: nat) \<le> 13))"

text \<open>
  \<^verbatim>\<open>bytes.fromhex(s)\<close>: whitespace is skipped between bytes, each byte is two adjacent hex
  digits, anything else raises \<^verbatim>\<open>ValueError\<close> (here \<open>None\<close>).
\<close>

fun fromhex :: "string \<Rightarrow> byte list option" where
  "fromhex [] = Some []"
| "fromhex [c] = (if py_isspace c then Some [] else None)"
| "fromhex (c # d # cs) =
     (if py_isspace c then fromhex (d # cs)
      else (case hexval c of
              None \<Rightarrow> None
            | Some hi \<Rightarrow>
               (case hexval d of
                  None \<Rightarrow> None
                | Some lo \<Rightarrow>
                   (case fromhex cs of
                      None \<Rightarrow> None
                    | Some bs \<Rightarrow> Some (of_nat (16 * hi + lo) # bs)))))"

definition hexchar :: "nat \<Rightarrow> char" where
  "hexchar n = ''0123456789abcdef'' ! n"

definition hex_of_byte :: "byte \<Rightarrow> string" where
  "hex_of_byte b = [hexchar (unat b div 16), hexchar (unat b mod 16)]"

text \<open>\<^verbatim>\<open>bytes.hex()\<close>, also the text of \<^verbatim>\<open>hexdigest()\<close>.\<close>

definition bytes_hex :: "byte list \<Rightarrow> string" where
  "bytes_hex bs = concat (map hex_of_byte bs)"

subsection \<open>\<^verbatim>\<open>hashlib.sha256\<close> (FIPS 180-4)\<close>

text \<open>32-bit words are naturals below \<open>2 ^ 32\<close>; addition wraps around.\<close>

definition add32 :: "nat \<Rightarrow> nat \<Rightarrow> nat" where
  "add32 x y = (x + y) mod 4294967296"

definition rotr :: "nat \<Rightarrow> nat \<Rightarrow> nat" where
  "rotr n x = x div 2 ^ n + (x mod 2 ^ n) * 2 ^ (32 - n)"

definition Ch :: "nat \<Rightarrow> nat \<Rightarrow> nat \<Rightarrow> nat" where
  "Ch x y z = (x AND y) XOR ((4294967295 - x) AND z)"

definition Maj :: "nat \<Rightarrow> nat \<Rightarrow> nat \<Rightarrow> nat" where
  "Maj x y z = (x AND y) XOR (x AND z) XOR (y AND z)"

definition bsig0 :: "nat \<Rightarrow> nat" where
  "bsig0 x = rotr 2 x XOR rotr 13 x XOR rotr 22 x"

definition bsig1 :: "nat \<Rightarrow> nat" where
  "bsig1 x = rotr 6 x XOR rotr 11 x XOR rotr 25 x"

definition ssig0 :: "nat \<Rightarrow> nat" where
  "ssig0 x = rotr 7 x XOR rotr 18 x XOR x div 2 ^ 3"

definition ssig1 :: "nat \<Rightarrow> nat" where
  "ssig1 x = rotr 17 x XOR rotr 19 x XOR x div 2 ^ 10"

text \<open>The round constants \<open>K 0 .. K 63\<close> (0x428a2f98, 0x71374491, ...), in decimal.\<close>

definition sha256_K :: "nat list" where
  "sha256_K = [
    1116352408, 1899447441, 3049323471, 3921009573, 961987163, 1508970993,
    2453635748, 2870763221, 3624381080, 310598401, 607225278, 1426881987,
    1925078388, 2162078206, 2614888103, 3248222580, 3835390401, 4022224774,
    264347078, 604807628, 770255983, 1249150122, 1555081692, 1996064986,
    2554220882, 2821834349, 2952996808, 3210313671, 3336571891, 3584528711,
    113926993, 338241895, 666307205, 773529912, 1294757372, 1396182291,
    1695183700, 1986661051, 2177026350, 2456956037, 2730485921, 2820302411,
    3259730800, 3345764771, 3516065817, 3600352804, 4094571909, 275423344,
    430227734, 506948616, 659060556, 883997877, 958139571, 1322822218,
    1537002063, 1747873779, 1955562222, 2024104815, 2227730452, 2361852424,
    2428436474, 2756734187, 3204031479, 3329325298]"

definition sha256_H0 :: "nat list" where
  "sha256_H0 = [0x6a09e667, 0xbb67ae85, 0x3c6ef372, 0xa54ff53a,
                0x510e527f, 0x9b05688c, 0x1f83d9ab, 0x5be0cd19]"

text \<open>Big-endian 32-bit words of a block.\<close>

fun be32 :: "nat list \<Rightarrow> nat list" where
  "be32 (a # b # c # d # rest) = (a * 16777216 + b * 65536 + c * 256 + d) # be32 rest"
| "be32 _ = []"

text \<open>
  The message schedule, kept newest first while it is extended: for the word \<open>t\<close> being
  added, \<open>r ! 1\<close> is \<open>W (t - 2)\<close>, \<open>r ! 6\<close> is \<open>W (t - 7)\<close>, \<open>r ! 14\<close> is \<open>W (t - 15)\<close>
  and \<open>r ! 15\<close> is \<open>W (t - 16)\<close>.
\<close>

definition next_w :: "nat list \<Rightarrow> nat" where
  "next_w r = add32 (add32 (add32 (ssig1 (r ! 1)) (r ! 6)) (ssig0 (r ! 14))) (r ! 15)"

fun schedule :: "nat \<Rightarrow> nat list \<Rightarrow> nat list" where
  "schedule 0 r = rev r"
| "schedule (Suc n) r = schedule n (next_w r # r)"

definition sha_t1 :: "nat \<Rightarrow> nat \<Rightarrow> nat \<Rightarrow> nat \<Rightarrow> nat \<Rightarrow> nat \<Rightarrow> nat" where
  "sha_t1 e f g h k w = add32 (add32 (add32 (add32 h (bsig1 e)) (Ch e f g)) k) w"

definition sha_t2 :: "nat \<Rightarrow> nat \<Rightarrow> nat \<Rightarrow> nat" where
  "sha_t2 a b c = add32 (bsig0 a) (Maj a b c)"

fun sha_round :: "nat list \<Rightarrow> (nat \<times> nat) \<Rightarrow> nat list" where
  "sha_round [a, b, c, d, e, f, g, h] (k, w) =
     [add32 (sha_t1 e f g h k w) (sha_t2 a b c), a, b, c, add32 d (sha_t1 e f g h k w), e, f, g]"
| "sha_round s _ = s"

definition compress :: "nat list \<Rightarrow> nat list \<Rightarrow> nat list" where
  "compress hs block =
     map2 add32 hs (foldl sha_round hs (zip sha256_K (schedule 48 (rev (be32 block)))))"

text \<open>Padding: the bit \<open>1\<close>, zeros up to 56 modulo 64, the bit length on 8 bytes.\<close>

definition sha_pad :: "nat list \<Rightarrow> nat list" where
  "sha_pad m = m @ [128] @ replicate ((119 - length m mod 64) mod 64) 0
                 @ map (\<lambda>s. (8 * length m) div 2 ^ s mod 256) [56, 48, 40, 32, 24, 16, 8, 0]"

function blocks :: "nat list \<Rightarrow> nat list list" where
  "blocks m = (if length m < 64 then [] else take 64 m # blocks (drop 64 m))"
  by pat_completeness auto
termination
  by (relation "measure length") auto

declare blocks.simps [simp del]

definition sha256_words :: "nat list \<Rightarrow> nat list" where
  "sha256_words m = foldl compress sha256_H0 (blocks (sha_pad m))"

definition sha256 :: "byte list \<Rightarrow> byte list" where
  "sha256 m = map of_nat (concat (map (\<lambda>w. map (\<lambda>s. w div 2 ^ s mod 256) [24, 16, 8, 0])
                                      (sha256_words (map unat m))))"

text \<open>\<^verbatim>\<open>hashlib.sha256(b).hexdigest()\<close>\<close>

definition sha256_hexdigest :: "byte list \<Rightarrow> string" where
  "sha256_hexdigest b = bytes_hex (sha256 b)"

section \<open>\<^verbatim>\<open>sdk/server.py\<close>: the timelock policy constants\<close>

datatype py_error = AssertionError string | TypeError | RPCError

record timelock_config =
  T_KPIV_SECONDS :: int
  T_USDC_SECONDS :: int
  T_BUFFER_SECONDS :: int
  T_KPIV_BLOCKS :: int
  T_USDC_BLOCKS :: int

text \<open>The values of lines 53 to 59.\<close>

definition shipped_config :: timelock_config where
  "shipped_config =
     \<lparr> T_KPIV_SECONDS = 2 * 60 * 60, T_USDC_SECONDS = 4 * 60 * 60, T_BUFFER_SECONDS = 30 * 60,
       T_KPIV_BLOCKS = 120, T_USDC_BLOCKS = 240 \<rparr>"

definition timelock_error_message :: "timelock_config \<Rightarrow> string" where
  "timelock_error_message c =
     ''TIMELOCK ERROR: T_USDC ('' @ str_int (T_USDC_SECONDS c) @ ''s) must be >= T_KPIV (''
       @ str_int (T_KPIV_SECONDS c) @ ''s) + BUFFER ('' @ str_int (T_BUFFER_SECONDS c) @ ''s)''"

text \<open>
  The module-level \<^verbatim>\<open>assert\<close> of lines 62 and 63: loading the module either goes on
  (\<open>Inr ()\<close>) or raises \<^verbatim>\<open>AssertionError\<close>, which nothing catches.
\<close>

definition load_timelock_policy :: "timelock_config \<Rightarrow> py_error + unit" where
  "load_timelock_policy c =
     (if T_USDC_SECONDS c \<ge> T_KPIV_SECONDS c + T_BUFFER_SECONDS c then Inr ()
      else Inl (AssertionError (timelock_error_message c)))"

section \<open>\<^verbatim>\<open>sdk/htlc_wrapper.py\<close>\<close>

text \<open>
  \<^verbatim>\<open>HTLCWrapper.verify_preimage\<close>: every exception of the body (\<^verbatim>\<open>fromhex\<close> raising on a
  string that is not hex) is caught and gives \<open>False\<close>.
\<close>

definition verify_preimage :: "string \<Rightarrow> string \<Rightarrow> bool" where
  "verify_preimage hashlock preimage =
     (case fromhex preimage of
        None \<Rightarrow> False
      | Some b \<Rightarrow> lower (sha256_hexdigest b) = lower hashlock)"


text \<open>
  An HTLC object as the daemon's \<^verbatim>\<open>htlc_get\<close> and \<^verbatim>\<open>htlc_list\<close> report it; a field is \<open>None\<close>
  when the key is absent, so \<^verbatim>\<open>d.get("status")\<close> is \<open>htlc_status d\<close>.
\<close>

record htlc_obj =
  htlc_status :: "string option"
  htlc_expiry_height :: "int option"
  htlc_preimage :: "string option"
  htlc_outpoint :: "string option"

text \<open>
  The two calls the wrapper makes on \<^verbatim>\<open>self.rpc\<close>. \<^verbatim>\<open>htlc_get\<close> answers with an object,
  with nothing (\<^verbatim>\<open>null\<close> or an empty object, both falsy) or raises \<^verbatim>\<open>RPCError\<close>;
  \<^verbatim>\<open>getblockcount\<close> answers with a height or raises.
\<close>

record rpc_view =
  rpc_htlc_get :: "string \<Rightarrow> py_error + htlc_obj option"
  rpc_getblockcount :: "py_error + int"

text \<open>\<^verbatim>\<open>HTLCWrapper.get\<close>: \<^verbatim>\<open>RPCError\<close> is caught and gives \<^verbatim>\<open>None\<close>.\<close>

definition HTLCWrapper_get :: "rpc_view \<Rightarrow> string \<Rightarrow> htlc_obj option" where
  "HTLCWrapper_get rpc identifier =
     (case rpc_htlc_get rpc identifier of Inl e \<Rightarrow> None | Inr r \<Rightarrow> r)"

definition is_claimable :: "rpc_view \<Rightarrow> string \<Rightarrow> py_error + bool" where
  "is_claimable rpc outpoint =
     (case HTLCWrapper_get rpc outpoint of
        None \<Rightarrow> Inr False
      | Some htlc \<Rightarrow>
          if htlc_status htlc \<notin> set [Some ''pending'', Some ''locked''] then Inr False
          else (case rpc_getblockcount rpc of
                  Inl e \<Rightarrow> Inl e
                | Inr current_height \<Rightarrow>
                    if current_height \<ge> (case htlc_expiry_height htlc of None \<Rightarrow> 0 | Some h \<Rightarrow> h)
                    then Inr False
                    else Inr True))"

definition is_refundable :: "rpc_view \<Rightarrow> string \<Rightarrow> py_error + bool" where
  "is_refundable rpc outpoint =
     (case HTLCWrapper_get rpc outpoint of
        None \<Rightarrow> Inr False
      | Some htlc \<Rightarrow>
          if htlc_status htlc \<in> set [Some ''claimed'', Some ''refunded''] then Inr False
          else (case rpc_getblockcount rpc of
                  Inl e \<Rightarrow> Inl e
                | Inr current_height \<Rightarrow>
                    if current_height < (case htlc_expiry_height htlc of None \<Rightarrow> 0 | Some h \<Rightarrow> h)
                    then Inr False
                    else Inr True))"

section \<open>\<^verbatim>\<open>swap_watcher.py\<close>: the unified swap state\<close>

record SwapState =
  swap_id :: string
  hashlock :: string
  piv_lot_outpoint :: "string option"
  piv_amount :: real
  piv_lot_status :: string
  piv_expiry_blocks :: int
  evm_locked :: bool
  evm_amount :: real
  evm_claimed :: bool
  evm_refunded :: bool
  evm_timelock :: int
  evm_time_left :: int
  taker_state :: string
  taker_action :: string
  lp_state :: string
  lp_action :: string
  secret_revealed :: bool
  secret :: "string option"

text \<open>\<^verbatim>\<open>SwapState(swap_id=..., hashlock=...)\<close> with the defaults of the dataclass.\<close>

definition SwapState_init :: "string \<Rightarrow> string \<Rightarrow> SwapState" where
  "SwapState_init sid h =
     \<lparr> swap_id = sid, hashlock = h, piv_lot_outpoint = None, piv_amount = 0,
       piv_lot_status = ''unknown'', piv_expiry_blocks = 0, evm_locked = False,
       evm_amount = 0, evm_claimed = False, evm_refunded = False, evm_timelock = 0,
       evm_time_left = 0, taker_state = ''browse'', taker_action = ''Select a LOT'',
       lp_state = ''inventory'', lp_action = ''Wait for taker'', secret_revealed = False,
       secret = None \<rparr>"

text \<open>\<^verbatim>\<open>derive_states\<close>, first half: the LP chain of \<^verbatim>\<open>if/elif\<close>.\<close>

definition derive_lp :: "SwapState \<Rightarrow> SwapState" where
  "derive_lp state =
     (if piv_lot_status state = ''expired'' then
        state\<lparr>lp_state := ''expired'', lp_action := ''Refund your KPIV''\<rparr>
      else if evm_claimed state then
        state\<lparr>lp_state := ''claimed'', lp_action := ''Done! USDC claimed''\<rparr>
      else if evm_locked state \<and> truthy (secret state) then
        state\<lparr>lp_state := ''taken'', lp_action := ''Claim USDC now!''\<rparr>
      else if evm_locked state then
        state\<lparr>lp_state := ''taken'', lp_action := ''Taker locked funds - claim when ready''\<rparr>
      else if truthy (piv_lot_outpoint state) then
        state\<lparr>lp_state := ''inventory'', lp_action := ''Waiting for taker''\<rparr>
      else state)"

text \<open>Second half: the taker chain.\<close>

definition derive_taker :: "SwapState \<Rightarrow> SwapState" where
  "derive_taker state =
     (if piv_lot_status state = ''claimed'' then
        state\<lparr>taker_state := ''completed'', taker_action := ''Done! KPIV received''\<rparr>
      else if secret_revealed state \<and> evm_locked state then
        state\<lparr>taker_state := ''claimable'', taker_action := ''Claim KPIV now!''\<rparr>
      else if evm_locked state \<and> evm_time_left state \<le> 0 then
        state\<lparr>taker_state := ''refundable'', taker_action := ''Timeout - refund your USDC''\<rparr>
      else if evm_locked state then
        state\<lparr>taker_state := ''locked'',
               taker_action := ''Waiting for LP ('' @ str_int (evm_time_left state div 3600)
                                 @ ''h left)''\<rparr>
      else if truthy (piv_lot_outpoint state) then
        state\<lparr>taker_state := ''browse'', taker_action := ''Lock USDC to start swap''\<rparr>
      else state)"

definition derive_states :: "SwapState \<Rightarrow> SwapState" where
  "derive_states state = derive_taker (derive_lp state)"

text \<open>
  What the chain queries of \<^verbatim>\<open>compute_swap_state\<close> answered: the LOT found by
  \<^verbatim>\<open>get_lot_by_hashlock\<close> (it carries the key \<^verbatim>\<open>hashlock\<close>, so it is never an empty
  object), the secret of \<^verbatim>\<open>get_lot_secret\<close>, the \<^verbatim>\<open>Locked\<close> event found by
  \<^verbatim>\<open>get_htlc_by_hashlock\<close>, the secret of \<^verbatim>\<open>check_htlc_claimed\<close> for a swap id, and
  \<^verbatim>\<open>int(time.time())\<close>.
\<close>

record lot_obj =
  lot_outpoint :: "string option"
  lot_amount :: "real option"
  lot_status :: "string option"
  lot_blocks_until_expiry :: "int option"
  lot_preimage :: "string option"

record evm_lock =
  el_swap_id :: string
  el_hashlock :: string
  el_amount :: real
  el_timelock :: int

record chain_view =
  cv_lot :: "lot_obj option"
  cv_saved_secret :: "string option"
  cv_htlc :: "evm_lock option"
  cv_claimed_secret :: "string \<Rightarrow> string option"
  cv_now :: int

text \<open>\<^verbatim>\<open>d.get(key, default)\<close> on an optional field.\<close>

definition get_default :: "'a option \<Rightarrow> 'a \<Rightarrow> 'a" where
  "get_default v d = (case v of None \<Rightarrow> d | Some x \<Rightarrow> x)"

text \<open>Step 1 of \<^verbatim>\<open>compute_swap_state\<close>: the BATHRON LOT.\<close>

definition observe_lot :: "lot_obj option \<Rightarrow> SwapState \<Rightarrow> SwapState" where
  "observe_lot l state =
     (case l of
        None \<Rightarrow> state
      | Some lot \<Rightarrow>
          (if lot_status lot = Some ''claimed'' then
             state\<lparr> piv_lot_outpoint := lot_outpoint lot,
                    piv_amount := get_default (lot_amount lot) 0,
                    piv_lot_status := get_default (lot_status lot) ''unknown'',
                    piv_expiry_blocks := get_default (lot_blocks_until_expiry lot) 0,
                    secret_revealed := True, secret := lot_preimage lot \<rparr>
           else
             state\<lparr> piv_lot_outpoint := lot_outpoint lot,
                    piv_amount := get_default (lot_amount lot) 0,
                    piv_lot_status := get_default (lot_status lot) ''unknown'',
                    piv_expiry_blocks := get_default (lot_blocks_until_expiry lot) 0 \<rparr>))"

text \<open>Step 2: the saved secret.\<close>

definition observe_saved_secret :: "string option \<Rightarrow> SwapState \<Rightarrow> SwapState" where
  "observe_saved_secret saved state = (if truthy saved then state\<lparr> secret := saved \<rparr> else state)"

text \<open>Step 3: the quote-side HTLC, looked up only when an LP address is given.\<close>

definition observe_evm :: "chain_view \<Rightarrow> string option \<Rightarrow> SwapState \<Rightarrow> SwapState" where
  "observe_evm cv lp_address state =
     (if truthy lp_address then
        (case cv_htlc cv of
           None \<Rightarrow> state
         | Some htlc \<Rightarrow>
             (if truthy (cv_claimed_secret cv (el_swap_id htlc)) then
                state\<lparr> swap_id := el_swap_id htlc, evm_locked := True,
                       evm_amount := el_amount htlc, evm_timelock := el_timelock htlc,
                       evm_time_left := max 0 (el_timelock htlc - cv_now cv),
                       evm_claimed := True, secret_revealed := True,
                       secret := cv_claimed_secret cv (el_swap_id htlc) \<rparr>
              else
                state\<lparr> swap_id := el_swap_id htlc, evm_locked := True,
                       evm_amount := el_amount htlc, evm_timelock := el_timelock htlc,
                       evm_time_left := max 0 (el_timelock htlc - cv_now cv) \<rparr>))
      else state)"

definition compute_swap_state :: "chain_view \<Rightarrow> string \<Rightarrow> string option \<Rightarrow> SwapState" where
  "compute_swap_state cv h lp_address =
     derive_states
       (observe_evm cv lp_address
         (observe_saved_secret (cv_saved_secret cv)
           (observe_lot (cv_lot cv) (SwapState_init [] h))))"

subsection \<open>\<^verbatim>\<open>POST /api/register_taker\<close>\<close>

text \<open>
  The JSON body, with the two keys the handler reads; the registry is the module's
  dictionary \<^verbatim>\<open>taker_registry\<close>.
\<close>

record register_taker_request =
  rt_hashlock :: "string option"
  rt_kpiv_address :: "string option"

datatype http_body =
    ErrorBody string
  | RegisterTakerOk string string
  | RegisterSwapOk string string

type_synonym http_response = "nat \<times> http_body"

definition post_register_taker ::
  "(string \<rightharpoonup> string) \<Rightarrow> register_taker_request \<Rightarrow> (string \<rightharpoonup> string) \<times> http_response" where
  "post_register_taker taker_registry data =
     (case (rt_hashlock data, rt_kpiv_address data) of
        (Some h0, Some kpiv_address) \<Rightarrow>
          if h0 = [] \<or> kpiv_address = [] then
            (taker_registry, (400, ErrorBody ''Missing hashlock or kpiv_address''))
          else if length (strip_0x (lower h0)) \<noteq> 64 then
            (taker_registry, (400, ErrorBody ''Invalid hashlock length (must be 64 hex chars)''))
          else
            (taker_registry(strip_0x (lower h0) \<mapsto> kpiv_address),
             (200, RegisterTakerOk (strip_0x (lower h0)) kpiv_address))
      | _ \<Rightarrow> (taker_registry, (400, ErrorBody ''Missing hashlock or kpiv_address'')))"

text \<open>\<^verbatim>\<open>GET /api/taker_address\<close>, the lookup the LP watcher uses.\<close>

definition get_taker_address :: "(string \<rightharpoonup> string) \<Rightarrow> string option \<Rightarrow> string option" where
  "get_taker_address taker_registry h =
     (case h of
        None \<Rightarrow> None
      | Some h0 \<Rightarrow>
          if h0 = [] then None
          else if truthy (taker_registry (strip_0x (lower h0)))
               then taker_registry (strip_0x (lower h0))
               else None)"

section \<open>\<^verbatim>\<open>sdk/server.py\<close>: registration and swap status\<close>

text \<open>An entry of the module's dictionary \<^verbatim>\<open>pending_swaps\<close>.\<close>

record swap_info =
  info_hashlock :: string
  info_taker_kpiv_addr :: string
  info_lot_id :: string
  info_registered_at :: int
  info_kpiv_sent :: bool
  info_swap_id :: "string option"

record register_request =
  rr_hashlock :: "string option"
  rr_taker_kpiv_addr :: "string option"
  rr_lot_id :: "string option"

text \<open>
  \<^verbatim>\<open>api_register_swap\<close>. The body is \<open>None\<close> when \<^verbatim>\<open>request.json\<close> is falsy (no body, or an
  empty object); \<open>now\<close> is \<^verbatim>\<open>int(time.time())\<close>.
\<close>

definition api_register_swap ::
  "(string \<rightharpoonup> swap_info) \<Rightarrow> int \<Rightarrow> register_request option \<Rightarrow>
     (string \<rightharpoonup> swap_info) \<times> http_response" where
  "api_register_swap pending now body =
     (case body of
        None \<Rightarrow> (pending, (400, ErrorBody ''No data provided''))
      | Some data \<Rightarrow>
          if \<not> (truthy (rr_hashlock data) \<and> truthy (rr_taker_kpiv_addr data)
                 \<and> truthy (rr_lot_id data)) then
            (pending, (400, ErrorBody ''Missing required fields''))
          else if \<not> (startswith (the (rr_taker_kpiv_addr data)) ''x''
                      \<or> startswith (the (rr_taker_kpiv_addr data)) ''y'') then
            (pending, (400, ErrorBody ''Invalid BATHRON address format''))
          else
            (pending(the (rr_hashlock data) \<mapsto>
                \<lparr> info_hashlock = the (rr_hashlock data),
                  info_taker_kpiv_addr = the (rr_taker_kpiv_addr data),
                  info_lot_id = the (rr_lot_id data),
                  info_registered_at = now,
                  info_kpiv_sent = False,
                  info_swap_id = None \<rparr>),
             (200, RegisterSwapOk (take 16 (the (rr_hashlock data)))
                ''Swap registered. LP will send KPIV after detecting your USDC lock.'')))"

text \<open>What \<^verbatim>\<open>get_htlc_swap\<close> read from the EVM contract (\<open>None\<close> when the call failed).\<close>

record evm_swap =
  sw_sender :: string
  sw_recipient :: string
  sw_token :: string
  sw_amount :: real
  sw_hashlock :: string
  sw_timelock :: int
  sw_withdrawn :: bool
  sw_refunded :: bool

record swap_status =
  st_state :: string
  st_next_action :: "string option"
  st_next_action_by :: "string option"

text \<open>
  \<^verbatim>\<open>api_swap_status\<close>: the state, the next action and who takes it, as the JSON answer
  carries them. \<open>contract\<close> is the contract's answer for a swap id.
\<close>

definition api_swap_status ::
  "(string \<rightharpoonup> swap_info) \<Rightarrow> (string \<Rightarrow> evm_swap option) \<Rightarrow> int \<Rightarrow> string \<Rightarrow> swap_status" where
  "api_swap_status pending contract now h =
     (let polygon_key = (case pending h of
                           None \<Rightarrow> h
                         | Some i \<Rightarrow> get_default (info_swap_id i) h);
          kpiv_sent = (case pending h of None \<Rightarrow> False | Some i \<Rightarrow> info_kpiv_sent i)
      in case contract polygon_key of
           None \<Rightarrow> \<lparr> st_state = ''UNKNOWN'', st_next_action = None, st_next_action_by = None \<rparr>
         | Some htlc_state \<Rightarrow>
             if sw_refunded htlc_state then
               \<lparr> st_state = ''REFUNDED'', st_next_action = None, st_next_action_by = None \<rparr>
             else if sw_withdrawn htlc_state then
               \<lparr> st_state = ''COMPLETED'', st_next_action = None, st_next_action_by = None \<rparr>
             else if sw_timelock htlc_state < now then
               \<lparr> st_state = ''REFUNDABLE'', st_next_action = Some ''REFUND'',
                 st_next_action_by = Some ''TAKER'' \<rparr>
             else if kpiv_sent then
               \<lparr> st_state = ''CLAIMABLE'', st_next_action = Some ''REVEAL_SECRET'',
                 st_next_action_by = Some ''TAKER'' \<rparr>
             else
               \<lparr> st_state = ''LOCKED'', st_next_action = Some ''WAIT_KPIV'',
                 st_next_action_by = Some ''LP'' \<rparr>)"

section \<open>\<^verbatim>\<open>lp_watcher.py\<close>: the LP orchestrator\<close>

text \<open>A parsed \<^verbatim>\<open>Locked\<close> event, as \<^verbatim>\<open>scan_for_locks\<close> builds it.\<close>

record lock_event =
  lock_swap_id :: string
  lock_sender :: string
  lock_recipient :: string
  lock_token :: string
  lock_amount :: real
  lock_hashlock :: string
  lock_timelock :: int
  lock_tx_hash :: string

text \<open>The dataclass \<^verbatim>\<open>PendingSwap\<close> (its field \<^verbatim>\<open>hashlock\<close> is \<open>ps_hashlock\<close> here).\<close>

record PendingSwap =
  ps_hashlock :: string
  polygon_swap_id :: string
  usdc_amount :: real
  kpiv_amount :: real
  polygon_timelock :: int
  kpiv_htlc_outpoint :: string
  kpiv_htlc_created :: bool
  preimage_revealed :: string
  usdc_claimed :: bool
  created_at :: real

text \<open>
  What the watcher sends out: the daemon call \<^verbatim>\<open>htlc_create_kpiv\<close> (hashlock, amount,
  recipient, expiry in blocks), the order-book notification, and the call of
  \<^verbatim>\<open>send_raw_transaction\<close> with the signed EVM transaction \<^verbatim>\<open>claim(swapId, preimage)\<close>.
\<close>

datatype chain_action =
    RpcHtlcCreateKpiv string real string int
  | NotifyTradeExecuted real string string
  | EvmClaim "byte list" "byte list"

text \<open>
  What the outside answers: the address \<^verbatim>\<open>/api/taker_address\<close> reports for a hashlock
  (\<open>None\<close> when not found or unreachable); the \<^verbatim>\<open>txid\<close> of the daemon's answer to
  \<^verbatim>\<open>htlc_create_kpiv\<close> (\<open>None\<close> when the call failed or the answer has no \<^verbatim>\<open>txid\<close>); the
  list \<^verbatim>\<open>htlc_list\<close> gives for a hashlock (empty when the call failed); the LP's private
  key (\<^verbatim>\<open>EVMMonitor.private_key\<close>, empty when not configured); the signed claim
  transaction for an account key, a swap id and a preimage, built with the gas price and
  the nonce the node reports (\<open>None\<close> when the node did not answer or signing raised);
  and the hash \<^verbatim>\<open>send_raw_transaction\<close> returns for a signed transaction (\<open>None\<close> when it
  raised).
\<close>

record lp_env =
  env_taker_address :: "string \<Rightarrow> string option"
  env_htlc_create_kpiv :: "string \<Rightarrow> real \<Rightarrow> string \<Rightarrow> int \<Rightarrow> string option"
  env_htlc_list :: "string \<Rightarrow> htlc_obj list"
  env_private_key :: string
  env_sign_claim :: "byte list \<Rightarrow> byte list \<Rightarrow> byte list \<Rightarrow> byte list option"
  env_send_raw :: "byte list \<Rightarrow> string option"

definition LP_PRICE :: real where
  "LP_PRICE = 5 / 100"

text \<open>\<^verbatim>\<open>get_taker_kpiv_address\<close>: the hashlock is sent without its \<^verbatim>\<open>0x\<close>.\<close>

definition get_taker_kpiv_address :: "lp_env \<Rightarrow> string \<Rightarrow> string option" where
  "get_taker_kpiv_address env h = env_taker_address env (strip_0x h)"

text \<open>
  \<^verbatim>\<open>create_kpiv_htlc(amount, hashlock, taker_address, expiry_blocks=120)\<close>: the call is
  made, and its \<^verbatim>\<open>txid\<close> returned when there is one.
\<close>

definition create_kpiv_htlc ::
  "lp_env \<Rightarrow> real \<Rightarrow> string \<Rightarrow> string \<Rightarrow> int \<Rightarrow> string option \<times> chain_action list" where
  "create_kpiv_htlc env amount h taker_address expiry_blocks =
     (env_htlc_create_kpiv env h amount taker_address expiry_blocks,
      [RpcHtlcCreateKpiv h amount taker_address expiry_blocks])"

text \<open>
  \<^verbatim>\<open>LPWatcher.try_create_kpiv_htlc\<close>: the swap object is updated in place in the source;
  here the updated swap is returned with the actions taken.
\<close>

definition try_create_kpiv_htlc :: "lp_env \<Rightarrow> PendingSwap \<Rightarrow> PendingSwap \<times> chain_action list" where
  "try_create_kpiv_htlc env swap =
     (if kpiv_htlc_created swap then (swap, [])
      else if \<not> truthy (get_taker_kpiv_address env (ps_hashlock swap)) then (swap, [])
      else
        (case create_kpiv_htlc env (kpiv_amount swap) (strip_0x (ps_hashlock swap))
                (the (get_taker_kpiv_address env (ps_hashlock swap))) 120 of
           (Some txid, acts) \<Rightarrow>
             (swap\<lparr> kpiv_htlc_outpoint := txid @ '':0'', kpiv_htlc_created := True \<rparr>,
              acts @ [NotifyTradeExecuted (kpiv_amount swap) (ps_hashlock swap) ''htlc_created''])
         | (None, acts) \<Rightarrow> (swap, acts)))"

text \<open>
  \<^verbatim>\<open>LPWatcher.process_new_lock\<close>. The dictionary \<^verbatim>\<open>pending_swaps\<close> keeps insertion order and
  is a list of pairs; \<open>now\<close> is \<^verbatim>\<open>time.time()\<close>, the default of \<^verbatim>\<open>created_at\<close>.
\<close>

definition process_new_lock ::
  "lp_env \<Rightarrow> real \<Rightarrow> (string \<times> PendingSwap) list \<Rightarrow> lock_event \<Rightarrow>
     (string \<times> PendingSwap) list \<times> chain_action list" where
  "process_new_lock env now pending_swaps lock =
     (if lock_hashlock lock \<in> set (map fst pending_swaps) then (pending_swaps, [])
      else
        (case try_create_kpiv_htlc env
                \<lparr> ps_hashlock = lock_hashlock lock,
                  polygon_swap_id = lock_swap_id lock,
                  usdc_amount = lock_amount lock,
                  kpiv_amount = lock_amount lock / LP_PRICE,
                  polygon_timelock = lock_timelock lock,
                  kpiv_htlc_outpoint = [],
                  kpiv_htlc_created = False,
                  preimage_revealed = [],
                  usdc_claimed = False,
                  created_at = now \<rparr> of
           (swap, acts) \<Rightarrow> (pending_swaps @ [(lock_hashlock lock, swap)], acts)))"

text \<open>\<^verbatim>\<open>get_htlc_by_hashlock\<close> of the watcher: the first claimed HTLC, else the first one.\<close>

definition get_htlc_by_hashlock :: "lp_env \<Rightarrow> string \<Rightarrow> htlc_obj option" where
  "get_htlc_by_hashlock env h =
     (case env_htlc_list env h of
        [] \<Rightarrow> None
      | first # others \<Rightarrow>
          (case find (\<lambda>htlc. htlc_status htlc = Some ''claimed'') (first # others) of
             Some htlc \<Rightarrow> Some htlc
           | None \<Rightarrow> Some first))"

text \<open>
  \<^verbatim>\<open>HexBytes(text)\<close>, by which \<^verbatim>\<open>Account.from_key\<close> reads a key given as text: a prefix
  \<^verbatim>\<open>0x\<close> or \<^verbatim>\<open>0X\<close> is dropped, a text of odd length is padded with a leading zero digit,
  and the digits are decoded by \<^verbatim>\<open>binascii.unhexlify\<close>, which accepts no whitespace.
\<close>

definition hexstr_to_bytes :: "string \<Rightarrow> byte list option" where
  "hexstr_to_bytes hexstr =
     (if list_ex py_isspace hexstr then None
      else fromhex ((if odd (length hexstr) then ''0'' else [])
                    @ (if startswith hexstr ''0x'' \<or> startswith hexstr ''0X''
                       then drop 2 hexstr else hexstr)))"

text \<open>\<^verbatim>\<open>int.from_bytes(b, 'big')\<close>\<close>

definition from_bytes_big :: "byte list \<Rightarrow> nat" where
  "from_bytes_big bs = foldl (\<lambda>acc b. 256 * acc + unat b) 0 bs"

text \<open>The order of the group of the curve secp256k1.\<close>

definition secp256k1_N :: nat where
  "secp256k1_N = 115792089237316195423570985008687907852837564279074904382605163141518161494337"

text \<open>
  \<^verbatim>\<open>Account.from_key(private_key)\<close> for a key given as text: the key must be exactly 32
  bytes (\<^verbatim>\<open>ValueError\<close> otherwise) and, for the public key to be computed, below the group
  order. The account is represented by its key.
\<close>

definition Account_from_key :: "string \<Rightarrow> byte list option" where
  "Account_from_key private_key =
     (case hexstr_to_bytes private_key of
        None \<Rightarrow> None
      | Some k \<Rightarrow> if length k = 32 \<and> from_bytes_big k < secp256k1_N then Some k else None)"

text \<open>
  \<^verbatim>\<open>EVMMonitor.claim_usdc\<close>. Without a private key nothing is sent. Everything else is
  inside the \<^verbatim>\<open>try\<close>, where any exception gives \<^verbatim>\<open>None\<close>: a key \<^verbatim>\<open>Account.from_key\<close>
  refuses, a swap id or preimage that is not hex, an argument of \<^verbatim>\<open>claim(bytes32, bytes32)\<close>
  that is not exactly 32 bytes, a failure to build or sign, a failure of
  \<^verbatim>\<open>send_raw_transaction\<close>. The transaction carries the preimage as given.
\<close>

definition claim_usdc :: "lp_env \<Rightarrow> string \<Rightarrow> string \<Rightarrow> string option \<times> chain_action list" where
  "claim_usdc env sid preimage =
     (if env_private_key env = [] then (None, [])
      else
        (case Account_from_key (env_private_key env) of
           None \<Rightarrow> (None, [])
         | Some account \<Rightarrow>
             (case (fromhex (strip_0x sid), fromhex (strip_0x preimage)) of
                (Some sid_bytes, Some preimage_bytes) \<Rightarrow>
                  if length sid_bytes \<noteq> 32 \<or> length preimage_bytes \<noteq> 32 then (None, [])
                  else
                    (case env_sign_claim env account sid_bytes preimage_bytes of
                       None \<Rightarrow> (None, [])
                     | Some raw \<Rightarrow>
                         (env_send_raw env raw, [EvmClaim sid_bytes preimage_bytes]))
              | _ \<Rightarrow> (None, []))))"

text \<open>The body of the loop of \<^verbatim>\<open>check_for_reveals\<close>, for one entry of the dictionary.\<close>

definition check_reveal :: "lp_env \<Rightarrow> string \<Rightarrow> PendingSwap \<Rightarrow> PendingSwap \<times> chain_action list" where
  "check_reveal env h swap =
     (if usdc_claimed swap then (swap, [])
      else if \<not> kpiv_htlc_created swap then (swap, [])
      else
        (case get_htlc_by_hashlock env (strip_0x h) of
           None \<Rightarrow> (swap, [])
         | Some htlc \<Rightarrow>
             if htlc_status htlc = Some ''claimed'' \<and> truthy (htlc_preimage htlc) then
               (case claim_usdc env (polygon_swap_id swap) (the (htlc_preimage htlc)) of
                  (tx_hash, acts) \<Rightarrow>
                    (swap\<lparr> preimage_revealed := the (htlc_preimage htlc),
                           usdc_claimed := (usdc_claimed swap \<or> truthy tx_hash) \<rparr>, acts))
             else (swap, [])))"

text \<open>\<^verbatim>\<open>LPWatcher.check_for_reveals\<close>: every entry in turn.\<close>

fun check_for_reveals ::
  "lp_env \<Rightarrow> (string \<times> PendingSwap) list \<Rightarrow> (string \<times> PendingSwap) list \<times> chain_action list" where
  "check_for_reveals env [] = ([], [])"
| "check_for_reveals env ((h, swap) # rest) =
     (case check_reveal env h swap of
        (swap', acts) \<Rightarrow>
          (case check_for_reveals env rest of
             (rest', acts') \<Rightarrow> ((h, swap') # rest', acts @ acts')))"

section \<open>\<^verbatim>\<open>lp_bot.py\<close>: the preimage in a script-sig\<close>

text \<open>\<^verbatim>\<open>int.from_bytes(b, 'little')\<close>\<close>

fun from_bytes_little :: "byte list \<Rightarrow> nat" where
  "from_bytes_little [] = 0"
| "from_bytes_little (b # bs) = unat b + 256 * from_bytes_little bs"

text \<open>
  The \<^verbatim>\<open>while\<close> loop of \<^verbatim>\<open>extract_preimage_from_scriptsig\<close> on what is left of \<^verbatim>\<open>data\<close>
  from \<^verbatim>\<open>pos\<close> on. A slice past the end is short or empty; \<^verbatim>\<open>data[pos]\<close> past the end
  raises \<^verbatim>\<open>IndexError\<close>, which the \<^verbatim>\<open>except\<close> turns into \<^verbatim>\<open>None\<close>.
\<close>

function scan_pushes :: "byte list \<Rightarrow> string option" where
  "scan_pushes [] = None"
| "scan_pushes (push_len # rest) =
     (if push_len = 0 then scan_pushes rest
      else if push_len \<le> 75 then
        (if push_len = 32 then
           (if bytes_hex (take 32 rest) \<noteq> replicate 64 CHR ''0''
               \<and> \<not> startswith (bytes_hex (take 32 rest)) ''02''
               \<and> \<not> startswith (bytes_hex (take 32 rest)) ''03''
            then Some (bytes_hex (take 32 rest))
            else scan_pushes (drop 32 rest))
         else scan_pushes (drop (unat push_len) rest))
      else if push_len = 76 then
        (case rest of
           [] \<Rightarrow> None
         | actual_len # rest' \<Rightarrow> scan_pushes (drop (unat actual_len) rest'))
      else if push_len = 77 then
        scan_pushes (drop (2 + from_bytes_little (take 2 rest)) rest)
      else scan_pushes rest)"
  by pat_completeness auto
termination
  by (relation "measure length") auto

definition extract_preimage_from_scriptsig :: "string \<Rightarrow> string option" where
  "extract_preimage_from_scriptsig scriptsig_hex =
     (case fromhex scriptsig_hex of
        None \<Rightarrow> None
      | Some data \<Rightarrow> scan_pushes data)"

section \<open>Notions used to state the properties\<close>

text \<open>
  The timelock policy of section 4.3 of the specification, in its words, as observed
  at run time: the quote timelock is at
  least the native expiry in wall time (\<open>now\<close> plus the native blocks at 60 seconds
  each) plus the buffer.
\<close>

definition spec_timelock_policy_ok :: "int \<Rightarrow> int \<Rightarrow> int \<Rightarrow> int \<Rightarrow> bool" where
  "spec_timelock_policy_ok quote_timelock now native_blocks buffer_seconds =
     (quote_timelock \<ge> now + native_blocks * 60 + buffer_seconds)"

text \<open>
  The items of a well-formed script-sig and their encoding: a direct push of 1 to 75
  bytes, \<^verbatim>\<open>OP_PUSHDATA1\<close> with a one-byte length, \<^verbatim>\<open>OP_PUSHDATA2\<close> with a two-byte
  little-endian length, \<^verbatim>\<open>OP_0\<close>, and any opcode from 78 on.
\<close>

datatype script_item =
    DirectPush "byte list"
  | PushData1 "byte list"
  | PushData2 "byte list"
  | OpZero
  | OpCode byte

fun well_formed_item :: "script_item \<Rightarrow> bool" where
  "well_formed_item (DirectPush d) = (1 \<le> length d \<and> length d \<le> 75)"
| "well_formed_item (PushData1 d) = (length d \<le> 255)"
| "well_formed_item (PushData2 d) = (length d \<le> 65535)"
| "well_formed_item OpZero = True"
| "well_formed_item (OpCode c) = (78 \<le> c)"

fun serialize_item :: "script_item \<Rightarrow> byte list" where
  "serialize_item (DirectPush d) = of_nat (length d) # d"
| "serialize_item (PushData1 d) = 76 # of_nat (length d) # d"
| "serialize_item (PushData2 d) =
     77 # of_nat (length d mod 256) # of_nat (length d div 256) # d"
| "serialize_item OpZero = [0]"
| "serialize_item (OpCode c) = [c]"

definition serialize_script :: "script_item list \<Rightarrow> byte list" where
  "serialize_script items = concat (map serialize_item items)"

text \<open>
  The pushes the parser takes for a preimage: direct pushes of 32 bytes that are not
  all zero and do not begin with 0x02 or 0x03.
\<close>

fun preimage_candidate :: "script_item \<Rightarrow> byte list option" where
  "preimage_candidate (DirectPush d) =
     (if length d = 32 \<and> d \<noteq> replicate 32 0 \<and> hd d \<noteq> 2 \<and> hd d \<noteq> 3 then Some d else None)"
| "preimage_candidate _ = None"

fun first_candidate :: "script_item list \<Rightarrow> byte list option" where
  "first_candidate [] = None"
| "first_candidate (i # items) =
     (case preimage_candidate i of Some d \<Rightarrow> Some d | None \<Rightarrow> first_candidate items)"

section \<open>Concrete scenarios\<close>

text \<open>
  A swap as \<^verbatim>\<open>compute_swap_state\<close> sees it: a locked native HTLC, a quote lock with four
  hours left, no claim on either side.
\<close>

definition both_locked_view :: chain_view where
  "both_locked_view =
     \<lparr> cv_lot = Some \<lparr> lot_outpoint = Some ''a425:0'', lot_amount = Some 100,
                       lot_status = Some ''locked'', lot_blocks_until_expiry = Some 120,
                       lot_preimage = None \<rparr>,
       cv_saved_secret = None,
       cv_htlc = Some \<lparr> el_swap_id = ''0x01'', el_hashlock = ''0xec49'', el_amount = 5,
                        el_timelock = 1700014400 \<rparr>,
       cv_claimed_secret = (\<lambda>i. None),
       cv_now = 1700000000 \<rparr>"

text \<open>
  The LP watcher's surroundings in a run where everything answers: the taker of the
  hashlock is registered, the daemon creates the HTLC and later lists it as claimed with
  the preimage of 32 bytes 0x11, a private key of 32 bytes is configured, the node lets
  the claim transaction be built and signed and accepts it.
\<close>

definition lp_key_bytes :: "byte list" where
  "lp_key_bytes = [76, 8, 131, 166, 145, 2, 147, 125, 98, 49, 71, 27, 93, 187, 98, 4,
                   254, 81, 41, 97, 112, 130, 121, 42, 228, 104, 208, 26, 63, 54, 35, 24]"

definition answering_env :: lp_env where
  "answering_env =
     \<lparr> env_taker_address = (\<lambda>h. Some ''yH4tZ75tFHFe6EJ5fYH3ntePMpLq1MCrv8''),
       env_htlc_create_kpiv = (\<lambda>h amount addr expiry. Some ''a4258e74''),
       env_htlc_list = (\<lambda>h.
          [\<lparr> htlc_status = Some ''claimed'', htlc_expiry_height = Some 2000,
             htlc_preimage =
               Some ''1111111111111111111111111111111111111111111111111111111111111111'',
             htlc_outpoint = Some ''a4258e74:0'' \<rparr>]),
       env_private_key =
         ''0x4c0883a69102937d6231471b5dbb6204fe5129617082792ae468d01a3f362318'',
       env_sign_claim = (\<lambda>account sid preimage. Some (sid @ preimage)),
       env_send_raw = (\<lambda>raw. Some ''0x9fc76417'') \<rparr>"

text \<open>
  A \<^verbatim>\<open>Locked\<close> event of 5 USDC whose timelock is 60 seconds after the time
  1700000000 at which it is processed.
\<close>

definition short_lock :: lock_event where
  "short_lock =
     \<lparr> lock_swap_id = ''0x01'', lock_sender = ''0x51'', lock_recipient = ''0xa1b4'',
       lock_token = ''0x79a0'', lock_amount = 5,
       lock_hashlock = ''0xec4916dd28fc4c10d78e287ca5d9cc51ee1ae73cbfde08c6b37324cbfaac8bc5'',
       lock_timelock = 1700000060, lock_tx_hash = ''0x77'' \<rparr>"

text \<open>The pending swap this event becomes once the native HTLC is created.\<close>

definition short_swap :: PendingSwap where
  "short_swap =
     \<lparr> ps_hashlock = ''0xec4916dd28fc4c10d78e287ca5d9cc51ee1ae73cbfde08c6b37324cbfaac8bc5'',
       polygon_swap_id = ''0x01'', usdc_amount = 5, kpiv_amount = 100,
       polygon_timelock = 1700000060, kpiv_htlc_outpoint = ''a4258e74:0'',
       kpiv_htlc_created = True, preimage_revealed = [], usdc_claimed = False,
       created_at = 1700000000 \<rparr>"

text \<open>
  A pending swap of the same hashlock whose native HTLC is created and whose quote-side
  swap id is the 32 bytes 0xab.
\<close>

definition created_swap :: PendingSwap where
  "created_swap =
     \<lparr> ps_hashlock = ''0xec4916dd28fc4c10d78e287ca5d9cc51ee1ae73cbfde08c6b37324cbfaac8bc5'',
       polygon_swap_id =
         ''0xabababababababababababababababababababababababababababababababab'',
       usdc_amount = 5, kpiv_amount = 100,
       polygon_timelock = 1700014400, kpiv_htlc_outpoint = ''a4258e74:0'',
       kpiv_htlc_created = True, preimage_revealed = [], usdc_claimed = False,
       created_at = 1700000000 \<rparr>"

text \<open>Two registrations of the same hashlock, by two takers.\<close>

definition first_taker :: register_taker_request where
  "first_taker =
     \<lparr> rt_hashlock = Some ''0xEC4916DD28fc4c10d78e287ca5d9cc51ee1ae73cbfde08c6b37324cbfaac8bc5'',
       rt_kpiv_address = Some ''yH4tZ75tFHFe6EJ5fYH3ntePMpLq1MCrv8'' \<rparr>"

definition second_taker :: register_taker_request where
  "second_taker =
     \<lparr> rt_hashlock = Some ''ec4916dd28fc4c10d78e287ca5d9cc51ee1ae73cbfde08c6b37324cbfaac8bc5'',
       rt_kpiv_address = Some ''y7XRqXgz1d8ELErDxtwQPnvfbe2ZcUecka'' \<rparr>"

definition first_swap :: register_request where
  "first_swap =
     \<lparr> rr_hashlock = Some ''ec4916dd28fc4c10d78e287ca5d9cc51ee1ae73cbfde08c6b37324cbfaac8bc5'',
       rr_taker_kpiv_addr = Some ''yH4tZ75tFHFe6EJ5fYH3ntePMpLq1MCrv8'',
       rr_lot_id = Some ''lot1'' \<rparr>"

definition second_swap :: register_request where
  "second_swap =
     \<lparr> rr_hashlock = Some ''ec4916dd28fc4c10d78e287ca5d9cc51ee1ae73cbfde08c6b37324cbfaac8bc5'',
       rr_taker_kpiv_addr = Some ''y7XRqXgz1d8ELErDxtwQPnvfbe2ZcUecka'',
       rr_lot_id = Some ''lot1'' \<rparr>"

text \<open>A quote-side lock with timelock 1700014400, seen at a given time.\<close>

definition quote_locked_view :: "int \<Rightarrow> chain_view" where
  "quote_locked_view now =
     \<lparr> cv_lot = None, cv_saved_secret = None,
       cv_htlc = Some \<lparr> el_swap_id = ''0x01'', el_hashlock = ''0xec49'', el_amount = 5,
                        el_timelock = 1700014400 \<rparr>,
       cv_claimed_secret = (\<lambda>i. None),
       cv_now = now \<rparr>"

text \<open>The same lock as the EVM contract reports it.\<close>

definition quote_locked_contract :: "string \<Rightarrow> evm_swap option" where
  "quote_locked_contract key =
     Some \<lparr> sw_sender = ''0x51'', sw_recipient = ''0xa1b4'', sw_token = ''0x79a0'',
            sw_amount = 5, sw_hashlock = ''0xec49'', sw_timelock = 1700014400,
            sw_withdrawn = False, sw_refunded = False \<rparr>"

text \<open>A locked native HTLC expiring at height 1000, seen at a given height.\<close>

definition native_locked_rpc :: "int \<Rightarrow> rpc_view" where
  "native_locked_rpc height =
     \<lparr> rpc_htlc_get = (\<lambda>i. Inr (Some \<lparr> htlc_status = Some ''locked'',
                                         htlc_expiry_height = Some 1000,
                                         htlc_preimage = None, htlc_outpoint = Some i \<rparr>)),
       rpc_getblockcount = Inr height \<rparr>"
section \<open>Evaluation of the library functions\<close>

lemma replicate_numeral: "replicate (numeral k) x = x # replicate (pred_numeral k) x"
  by (simp add: numeral_eq_Suc)

lemma schedule_numeral: "schedule (numeral k) r = schedule (pred_numeral k) (next_w r # r)"
  by (simp add: numeral_eq_Suc)

lemmas sha_eval =
  schedule_numeral replicate_numeral ssig0_def ssig1_def bsig0_def bsig1_def rotr_def add32_def
  next_w_def sha_t1_def sha_t2_def Ch_def Maj_def compress_def sha256_K_def sha256_H0_def
  sha_pad_def sha256_words_def blocks.simps

lemmas hex_eval =
  bytes_hex_def hex_of_byte_def hexchar_def hexval_def py_isspace_def lower_def char_lower_def
  startswith_def strip_0x_def

text \<open>The digest of the empty message, as \<^verbatim>\<open>hashlib.sha256(b"")\<close> gives it.\<close>

lemma sha256_words_empty:
  "sha256_words [] = [0xe3b0c442, 0x98fc1c14, 0x9afbf4c8, 0x996fb924,
                      0x27ae41e4, 0x649b934c, 0xa495991b, 0x7852b855]"
  by (simp add: sha_eval)

lemma sha256_hexdigest_empty:
  "sha256_hexdigest [] = ''e3b0c44298fc1c149afbf4c8996fb92427ae41e4649b934ca495991b7852b855''"
  by (simp add: sha256_hexdigest_def sha256_def sha256_words_empty hex_eval)


subsection \<open>Hexadecimal text\<close>

lemma nat_lt_16_cases: "(n::nat) < 16 \<Longrightarrow> n \<in> {0,1,2,3,4,5,6,7,8,9,10,11,12,13,14,15}"
  by (simp only: insert_iff empty_iff) arith

lemma char_lower_hexchar: "n < 16 \<Longrightarrow> char_lower (hexchar n) = hexchar n"
  by (drule nat_lt_16_cases) (elim insertE emptyE; simp add: hexchar_def char_lower_def)

lemma hexval_hexchar: "n < 16 \<Longrightarrow> hexval (hexchar n) = Some n"
  by (drule nat_lt_16_cases) (elim insertE emptyE; simp add: hexchar_def hexval_def)

lemma isspace_hexchar: "n < 16 \<Longrightarrow> \<not> py_isspace (hexchar n)"
  by (drule nat_lt_16_cases) (elim insertE emptyE; simp add: hexchar_def py_isspace_def)

lemma unat_byte_div16: "unat (b::byte) div 16 < 16"
proof -
  have "unat b < 2 ^ LENGTH(8)" by (rule unsigned_less)
  then have "unat b < 256" by simp
  then show ?thesis by simp
qed

lemma lower_bytes_hex: "lower (bytes_hex bs) = bytes_hex bs"
  by (induction bs) (simp_all add: lower_def bytes_hex_def hex_of_byte_def char_lower_hexchar unat_byte_div16)

lemma fromhex_bytes_hex: "fromhex (bytes_hex bs) = Some bs"
  by (induction bs) (simp_all add: bytes_hex_def hex_of_byte_def hexval_hexchar isspace_hexchar unat_byte_div16)

lemma bytes_hex_inj: "bytes_hex a = bytes_hex b \<Longrightarrow> a = b"
  by (metis fromhex_bytes_hex option.inject)

text \<open>The digest of 32 bytes 0x11.\<close>

lemma sha256_words_ones:
  "sha256_words (replicate 32 17) = [0x02d449a3, 0x1fbb267c, 0x8f352e99, 0x68a79e3e,
                      0x5fc95c1b, 0xbeaa502f, 0xd6454ebd, 0xe5a4bedc]"
  by (simp add: sha_eval)

lemma sha256_hexdigest_ones:
  "sha256_hexdigest (replicate 32 17) = ''02d449a31fbb267c8f352e9968a79e3e5fc95c1bbeaa502fd6454ebde5a4bedc''"
  by (simp add: sha256_hexdigest_def sha256_def sha256_words_ones hex_eval)

lemma fromhex_ones:
  "fromhex ''1111111111111111111111111111111111111111111111111111111111111111'' = Some (replicate 32 17)"
  by (simp add: hexval_def py_isspace_def replicate_numeral)

text \<open>These 32 bytes do not open the hashlock used in the scenarios.\<close>

lemma ones_do_not_open:
  "\<not> verify_preimage ''ec4916dd28fc4c10d78e287ca5d9cc51ee1ae73cbfde08c6b37324cbfaac8bc5''
       ''1111111111111111111111111111111111111111111111111111111111111111''"
  unfolding verify_preimage_def fromhex_ones
  by (simp add: sha256_hexdigest_ones lower_def char_lower_def)


section \<open>Fields of the derived state\<close>

lemma derive_lp_keeps [simp]:
  "swap_id (derive_lp s) = swap_id s"
  "hashlock (derive_lp s) = hashlock s"
  "piv_lot_outpoint (derive_lp s) = piv_lot_outpoint s"
  "piv_amount (derive_lp s) = piv_amount s"
  "piv_lot_status (derive_lp s) = piv_lot_status s"
  "piv_expiry_blocks (derive_lp s) = piv_expiry_blocks s"
  "evm_locked (derive_lp s) = evm_locked s"
  "evm_amount (derive_lp s) = evm_amount s"
  "evm_claimed (derive_lp s) = evm_claimed s"
  "evm_refunded (derive_lp s) = evm_refunded s"
  "evm_timelock (derive_lp s) = evm_timelock s"
  "evm_time_left (derive_lp s) = evm_time_left s"
  "secret_revealed (derive_lp s) = secret_revealed s"
  "secret (derive_lp s) = secret s"
  "taker_state (derive_lp s) = taker_state s"
  "taker_action (derive_lp s) = taker_action s"
  by (simp_all add: derive_lp_def)

lemma derive_taker_keeps [simp]:
  "swap_id (derive_taker s) = swap_id s"
  "hashlock (derive_taker s) = hashlock s"
  "piv_lot_outpoint (derive_taker s) = piv_lot_outpoint s"
  "piv_amount (derive_taker s) = piv_amount s"
  "piv_lot_status (derive_taker s) = piv_lot_status s"
  "piv_expiry_blocks (derive_taker s) = piv_expiry_blocks s"
  "evm_locked (derive_taker s) = evm_locked s"
  "evm_amount (derive_taker s) = evm_amount s"
  "evm_claimed (derive_taker s) = evm_claimed s"
  "evm_refunded (derive_taker s) = evm_refunded s"
  "evm_timelock (derive_taker s) = evm_timelock s"
  "evm_time_left (derive_taker s) = evm_time_left s"
  "secret_revealed (derive_taker s) = secret_revealed s"
  "secret (derive_taker s) = secret s"
  "lp_state (derive_taker s) = lp_state s"
  "lp_action (derive_taker s) = lp_action s"
  by (simp_all add: derive_taker_def)

lemma lp_state_derive_lp:
  "lp_state (derive_lp s) =
     (if piv_lot_status s = ''expired'' then ''expired''
      else if evm_claimed s then ''claimed''
      else if evm_locked s then ''taken''
      else if truthy (piv_lot_outpoint s) then ''inventory''
      else lp_state s)"
  by (simp add: derive_lp_def)

lemma lp_action_derive_lp:
  "lp_action (derive_lp s) =
     (if piv_lot_status s = ''expired'' then ''Refund your KPIV''
      else if evm_claimed s then ''Done! USDC claimed''
      else if evm_locked s \<and> truthy (secret s) then ''Claim USDC now!''
      else if evm_locked s then ''Taker locked funds - claim when ready''
      else if truthy (piv_lot_outpoint s) then ''Waiting for taker''
      else lp_action s)"
  by (simp add: derive_lp_def)

lemma taker_state_derive_taker:
  "taker_state (derive_taker s) =
     (if piv_lot_status s = ''claimed'' then ''completed''
      else if secret_revealed s \<and> evm_locked s then ''claimable''
      else if evm_locked s \<and> evm_time_left s \<le> 0 then ''refundable''
      else if evm_locked s then ''locked''
      else if truthy (piv_lot_outpoint s) then ''browse''
      else taker_state s)"
  by (simp add: derive_taker_def)

lemma taker_action_derive_taker:
  "taker_action (derive_taker s) =
     (if piv_lot_status s = ''claimed'' then ''Done! KPIV received''
      else if secret_revealed s \<and> evm_locked s then ''Claim KPIV now!''
      else if evm_locked s \<and> evm_time_left s \<le> 0 then ''Timeout - refund your USDC''
      else if evm_locked s then
        ''Waiting for LP ('' @ str_int (evm_time_left s div 3600) @ ''h left)''
      else if truthy (piv_lot_outpoint s) then ''Lock USDC to start swap''
      else taker_action s)"
  by (simp add: derive_taker_def)

lemmas derive_fields =
  lp_state_derive_lp lp_action_derive_lp taker_state_derive_taker taker_action_derive_taker

lemma derive_states_idem: "derive_states (derive_states s) = derive_states s"
  unfolding derive_states_def
  by (rule SwapState.equality) (simp_all add: derive_fields)

section \<open>The timelock assertion at module load\<close>

text \<open>
  C1. Loading \<^verbatim>\<open>sdk/server.py\<close> passes the assertion exactly when
  \<open>T_USDC_SECONDS \<ge> T_KPIV_SECONDS + T_BUFFER_SECONDS\<close>; every other configuration
  raises \<^verbatim>\<open>AssertionError\<close> with the diagnostic. Where \<open>T_KPIV_SECONDS\<close> is
  \<open>T_KPIV_BLOCKS \<times> 60\<close>, as in the shipped values, this is the policy
  \<open>T_quote_seconds \<ge> T_native_blocks \<times> seconds_per_block + buffer_seconds\<close>.
  The shipped values (14400, 7200, 1800) pass.
\<close>

theorem timelock_assertion_at_load:
  "((load_timelock_policy c = Inr ())
      = (T_USDC_SECONDS c \<ge> T_KPIV_SECONDS c + T_BUFFER_SECONDS c)) \<and>
   ((load_timelock_policy c = Inl (AssertionError (timelock_error_message c)))
      = (T_USDC_SECONDS c < T_KPIV_SECONDS c + T_BUFFER_SECONDS c)) \<and>
   (T_KPIV_SECONDS c = T_KPIV_BLOCKS c * 60 \<longrightarrow>
      (load_timelock_policy c = Inl (AssertionError (timelock_error_message c)))
        = (T_USDC_SECONDS c < T_KPIV_BLOCKS c * 60 + T_BUFFER_SECONDS c)) \<and>
   load_timelock_policy shipped_config = Inr () \<and>
   T_USDC_SECONDS shipped_config = 14400 \<and> T_KPIV_SECONDS shipped_config = 7200 \<and>
   T_BUFFER_SECONDS shipped_config = 1800 \<and>
   T_KPIV_SECONDS shipped_config = T_KPIV_BLOCKS shipped_config * 60"
  by (simp add: load_timelock_policy_def shipped_config_def)

text \<open>
  A configuration of 300 blocks (18000 s) against a quote timelock of 14400 s: the
  assertion fails and the diagnostic names the values.
\<close>

theorem timelock_assertion_at_load_witness:
  "T_KPIV_SECONDS \<lparr> T_KPIV_SECONDS = 18000, T_USDC_SECONDS = 14400, T_BUFFER_SECONDS = 1800,
                    T_KPIV_BLOCKS = 300, T_USDC_BLOCKS = 240 \<rparr>
     = T_KPIV_BLOCKS \<lparr> T_KPIV_SECONDS = 18000, T_USDC_SECONDS = 14400, T_BUFFER_SECONDS = 1800,
                    T_KPIV_BLOCKS = 300, T_USDC_BLOCKS = 240 \<rparr> * 60 \<and>
   load_timelock_policy \<lparr> T_KPIV_SECONDS = 18000, T_USDC_SECONDS = 14400, T_BUFFER_SECONDS = 1800,
                    T_KPIV_BLOCKS = 300, T_USDC_BLOCKS = 240 \<rparr>
     = Inl (AssertionError
         ''TIMELOCK ERROR: T_USDC (14400s) must be >= T_KPIV (18000s) + BUFFER (1800s)'')"
  using timelock_assertion_at_load
    [of "\<lparr> T_KPIV_SECONDS = 18000, T_USDC_SECONDS = 14400, T_BUFFER_SECONDS = 1800,
           T_KPIV_BLOCKS = 300, T_USDC_BLOCKS = 240 \<rparr>"]
  by (simp add: timelock_error_message_def str_int_def str_nat.simps digit_char_def)


section \<open>Preimage verification\<close>

lemma verify_preimage_char:
  "verify_preimage H S = (\<exists>b. fromhex S = Some b \<and> sha256_hexdigest b = lower H)"
  by (simp add: verify_preimage_def sha256_hexdigest_def lower_bytes_hex split: option.splits)

text \<open>
  C5, as stated, fails on the zero-byte preimage: for the hashlock that is the SHA-256
  of the empty byte string, \<^verbatim>\<open>verify_preimage(H, "")\<close> returns \<open>True\<close>.
\<close>

theorem verify_preimage_empty_counterexample:
  "verify_preimage ''e3b0c44298fc1c149afbf4c8996fb92427ae41e4649b934ca495991b7852b855'' ''''"
  by (simp add: verify_preimage_char sha256_hexdigest_empty lower_def char_lower_def)

text \<open>
  C5, amended. \<^verbatim>\<open>verify_preimage(H, S)\<close> is true exactly when \<open>S\<close> is hex and the
  SHA-256 hex digest of the decoded bytes is \<open>H\<close> in lower case; a 32-byte preimage whose
  digest is not \<open>H\<close> is rejected; the zero-byte preimage is rejected for every
  hashlock but the digest of the empty string, for which it is accepted.
\<close>

theorem verify_preimage_amended:
  "verify_preimage H S = (\<exists>b. fromhex S = Some b \<and> sha256_hexdigest b = lower H) \<and>
   (fromhex S = Some b \<and> length b = 32 \<and> sha256_hexdigest b \<noteq> lower H \<longrightarrow> \<not> verify_preimage H S) \<and>
   verify_preimage H '''' =
     (lower H = ''e3b0c44298fc1c149afbf4c8996fb92427ae41e4649b934ca495991b7852b855'')"
  by (auto simp add: verify_preimage_char sha256_hexdigest_empty)

text \<open>The preimage of 32 bytes 0x11 against the hashlock of another secret.\<close>

theorem verify_preimage_amended_witness:
  "fromhex ''1111111111111111111111111111111111111111111111111111111111111111'' = Some (replicate 32 17) \<and>
   length (replicate 32 (17::byte)) = 32 \<and>
   sha256_hexdigest (replicate 32 17) \<noteq> lower ''EC4916DD28fc4c10d78e287ca5d9cc51ee1ae73cbfde08c6b37324cbfaac8bc5'' \<and>
   \<not> verify_preimage ''EC4916DD28fc4c10d78e287ca5d9cc51ee1ae73cbfde08c6b37324cbfaac8bc5''
         ''1111111111111111111111111111111111111111111111111111111111111111''"
proof -
  have a: "fromhex ''1111111111111111111111111111111111111111111111111111111111111111'' = Some (replicate 32 17)"
    by (rule fromhex_ones)
  have b: "length (replicate 32 (17::byte)) = 32"
    by simp
  have c: "sha256_hexdigest (replicate 32 17) \<noteq> lower ''EC4916DD28fc4c10d78e287ca5d9cc51ee1ae73cbfde08c6b37324cbfaac8bc5''"
    by (simp add: sha256_hexdigest_ones lower_def char_lower_def)
  from a b c verify_preimage_amended [of "''EC4916DD28fc4c10d78e287ca5d9cc51ee1ae73cbfde08c6b37324cbfaac8bc5''"
      "''1111111111111111111111111111111111111111111111111111111111111111''" "replicate 32 17"]
  have "\<not> verify_preimage ''EC4916DD28fc4c10d78e287ca5d9cc51ee1ae73cbfde08c6b37324cbfaac8bc5''
         ''1111111111111111111111111111111111111111111111111111111111111111''"
    by blast
  with a b c show ?thesis by blast
qed


section \<open>Claimable and refundable\<close>

text \<open>
  C10. For every answer of the daemon and every block height, \<^verbatim>\<open>is_claimable\<close> and
  \<^verbatim>\<open>is_refundable\<close> never both return \<open>True\<close>: the first needs status pending or locked
  and a height strictly below the expiry height, the second a status that is neither
  claimed nor refunded and a height at least the expiry height.
\<close>

theorem claimable_refundable_exclusive:
  "\<not> (is_claimable rpc outpoint = Inr True \<and> is_refundable rpc outpoint = Inr True) \<and>
   (is_claimable rpc outpoint = Inr True) =
     (\<exists>htlc h. HTLCWrapper_get rpc outpoint = Some htlc \<and> rpc_getblockcount rpc = Inr h \<and>
        (htlc_status htlc = Some ''pending'' \<or> htlc_status htlc = Some ''locked'') \<and>
        h < get_default (htlc_expiry_height htlc) 0) \<and>
   (is_refundable rpc outpoint = Inr True) =
     (\<exists>htlc h. HTLCWrapper_get rpc outpoint = Some htlc \<and> rpc_getblockcount rpc = Inr h \<and>
        htlc_status htlc \<noteq> Some ''claimed'' \<and> htlc_status htlc \<noteq> Some ''refunded'' \<and>
        h \<ge> get_default (htlc_expiry_height htlc) 0)"
  by (auto simp add: is_claimable_def is_refundable_def get_default_def
           split: option.splits sum.splits if_splits)

text \<open>A locked HTLC expiring at height 1000, seen at height 999.\<close>

theorem claimable_refundable_exclusive_witness:
  "is_claimable
     \<lparr> rpc_htlc_get = (\<lambda>i. Inr (Some \<lparr> htlc_status = Some ''locked'',
                                         htlc_expiry_height = Some 1000,
                                         htlc_preimage = None, htlc_outpoint = Some i \<rparr>)),
       rpc_getblockcount = Inr 999 \<rparr> ''ab:0'' = Inr True \<and>
   is_refundable
     \<lparr> rpc_htlc_get = (\<lambda>i. Inr (Some \<lparr> htlc_status = Some ''locked'',
                                         htlc_expiry_height = Some 1000,
                                         htlc_preimage = None, htlc_outpoint = Some i \<rparr>)),
       rpc_getblockcount = Inr 999 \<rparr> ''ab:0'' \<noteq> Inr True"
proof -
  let ?rpc = "\<lparr> rpc_htlc_get = (\<lambda>i. Inr (Some \<lparr> htlc_status = Some ''locked'',
                                         htlc_expiry_height = Some 1000,
                                         htlc_preimage = None, htlc_outpoint = Some i \<rparr>)),
                 rpc_getblockcount = Inr 999 \<rparr>"
  have a: "is_claimable ?rpc ''ab:0'' = Inr True"
    by (simp add: is_claimable_def HTLCWrapper_get_def)
  with claimable_refundable_exclusive [of ?rpc "''ab:0''"] show ?thesis
    by blast
qed

section \<open>The derivation of taker and LP states\<close>

lemma derive_states_keeps [simp]:
  "swap_id (derive_states s) = swap_id s"
  "hashlock (derive_states s) = hashlock s"
  "piv_lot_outpoint (derive_states s) = piv_lot_outpoint s"
  "piv_amount (derive_states s) = piv_amount s"
  "piv_lot_status (derive_states s) = piv_lot_status s"
  "piv_expiry_blocks (derive_states s) = piv_expiry_blocks s"
  "evm_locked (derive_states s) = evm_locked s"
  "evm_amount (derive_states s) = evm_amount s"
  "evm_claimed (derive_states s) = evm_claimed s"
  "evm_refunded (derive_states s) = evm_refunded s"
  "evm_timelock (derive_states s) = evm_timelock s"
  "evm_time_left (derive_states s) = evm_time_left s"
  "secret_revealed (derive_states s) = secret_revealed s"
  "secret (derive_states s) = secret s"
  by (simp_all add: derive_states_def)

lemma lp_state_derive_states:
  "lp_state (derive_states s) =
     (if piv_lot_status s = ''expired'' then ''expired''
      else if evm_claimed s then ''claimed''
      else if evm_locked s then ''taken''
      else if truthy (piv_lot_outpoint s) then ''inventory''
      else lp_state s)"
  by (simp add: derive_states_def derive_fields)

lemma taker_state_derive_states:
  "taker_state (derive_states s) =
     (if piv_lot_status s = ''claimed'' then ''completed''
      else if secret_revealed s \<and> evm_locked s then ''claimable''
      else if evm_locked s \<and> evm_time_left s \<le> 0 then ''refundable''
      else if evm_locked s then ''locked''
      else if truthy (piv_lot_outpoint s) then ''browse''
      else taker_state s)"
  by (simp add: derive_states_def derive_fields)

lemmas observe_defs =
  compute_swap_state_def observe_evm_def observe_saved_secret_def observe_lot_def
  SwapState_init_def truthy_def get_default_def

text \<open>
  C4, as stated, fails: with the native HTLC locked and the quote HTLC locked, and no
  earlier rule applying, the taker is LOCKED, not CLAIMABLE.
\<close>

theorem native_locked_quote_locked_counterexample:
  "piv_lot_status (compute_swap_state both_locked_view ''ec49'' (Some ''0xA1b4'')) = ''locked'' \<and>
   evm_locked (compute_swap_state both_locked_view ''ec49'' (Some ''0xA1b4'')) \<and>
   \<not> evm_claimed (compute_swap_state both_locked_view ''ec49'' (Some ''0xA1b4'')) \<and>
   \<not> evm_refunded (compute_swap_state both_locked_view ''ec49'' (Some ''0xA1b4'')) \<and>
   secret (compute_swap_state both_locked_view ''ec49'' (Some ''0xA1b4'')) = None \<and>
   lp_state (compute_swap_state both_locked_view ''ec49'' (Some ''0xA1b4'')) = ''taken'' \<and>
   taker_state (compute_swap_state both_locked_view ''ec49'' (Some ''0xA1b4'')) = ''locked'' \<and>
   taker_state (compute_swap_state both_locked_view ''ec49'' (Some ''0xA1b4'')) \<noteq> ''claimable''"
  by (simp add: observe_defs both_locked_view_def lp_state_derive_states
        taker_state_derive_states)

text \<open>
  C4, amended. With the native HTLC locked and the quote HTLC locked and unclaimed, the
  LP is TAKEN; the taker is CLAIMABLE once the secret is revealed, and before that
  REFUNDABLE when no time is left on the quote timelock, LOCKED while time is left.
\<close>

theorem native_locked_quote_locked_amended:
  "piv_lot_status s = ''locked'' \<and> evm_locked s \<and> \<not> evm_claimed s \<longrightarrow>
     lp_state (derive_states s) = ''taken'' \<and>
     taker_state (derive_states s) =
       (if secret_revealed s then ''claimable''
        else if evm_time_left s \<le> 0 then ''refundable''
        else ''locked'')"
  by (simp add: lp_state_derive_states taker_state_derive_states)

theorem native_locked_quote_locked_amended_witness:
  "piv_lot_status (observe_evm both_locked_view (Some ''0xA1b4'')
      (observe_lot (cv_lot both_locked_view) (SwapState_init [] ''ec49''))) = ''locked'' \<and>
   evm_locked (observe_evm both_locked_view (Some ''0xA1b4'')
      (observe_lot (cv_lot both_locked_view) (SwapState_init [] ''ec49''))) \<and>
   \<not> evm_claimed (observe_evm both_locked_view (Some ''0xA1b4'')
      (observe_lot (cv_lot both_locked_view) (SwapState_init [] ''ec49''))) \<and>
   lp_state (derive_states (observe_evm both_locked_view (Some ''0xA1b4'')
      (observe_lot (cv_lot both_locked_view) (SwapState_init [] ''ec49'')))) = ''taken'' \<and>
   taker_state (derive_states (observe_evm both_locked_view (Some ''0xA1b4'')
      (observe_lot (cv_lot both_locked_view) (SwapState_init [] ''ec49'')))) = ''locked''"
  using native_locked_quote_locked_amended
    [of "observe_evm both_locked_view (Some ''0xA1b4'')
          (observe_lot (cv_lot both_locked_view) (SwapState_init [] ''ec49''))"]
  by (simp add: observe_defs both_locked_view_def)

section \<open>Idempotence\<close>

text \<open>
  C9. Deriving the states of an already derived state changes nothing, and a
  \<^verbatim>\<open>Locked\<close> event whose hashlock is already in \<^verbatim>\<open>pending_swaps\<close> leaves the
  dictionary as it is and sends nothing.
\<close>

theorem state_machine_idempotent:
  "derive_states (derive_states s) = derive_states s \<and>
   (lock_hashlock lock \<in> set (map fst pending_swaps) \<longrightarrow>
      process_new_lock env now pending_swaps lock = (pending_swaps, []))"
  by (simp add: derive_states_idem process_new_lock_def)

text \<open>The event of a swap that is already pending.\<close>

theorem state_machine_idempotent_witness:
  "lock_hashlock short_lock \<in> set (map fst [(ps_hashlock short_swap, short_swap)]) \<and>
   process_new_lock answering_env 1700000100 [(ps_hashlock short_swap, short_swap)] short_lock
     = ([(ps_hashlock short_swap, short_swap)], [])"
proof -
  have a: "lock_hashlock short_lock \<in> set (map fst [(ps_hashlock short_swap, short_swap)])"
    by (simp add: short_lock_def short_swap_def)
  with state_machine_idempotent
    [where lock = short_lock and pending_swaps = "[(ps_hashlock short_swap, short_swap)]"
       and env = answering_env and now = 1700000100]
  show ?thesis by blast
qed

section \<open>Registration of a hashlock\<close>

lemma lower_strip_first:
  "strip_0x (lower ''0xEC4916DD28fc4c10d78e287ca5d9cc51ee1ae73cbfde08c6b37324cbfaac8bc5'')
     = ''ec4916dd28fc4c10d78e287ca5d9cc51ee1ae73cbfde08c6b37324cbfaac8bc5''"
  by (simp add: hex_eval)

lemma lower_strip_second:
  "strip_0x (lower ''ec4916dd28fc4c10d78e287ca5d9cc51ee1ae73cbfde08c6b37324cbfaac8bc5'')
     = ''ec4916dd28fc4c10d78e287ca5d9cc51ee1ae73cbfde08c6b37324cbfaac8bc5''"
  by (simp add: hex_eval)

lemma first_registration:
  "post_register_taker Map.empty first_taker
     = (Map.empty(''ec4916dd28fc4c10d78e287ca5d9cc51ee1ae73cbfde08c6b37324cbfaac8bc5''
          \<mapsto> ''yH4tZ75tFHFe6EJ5fYH3ntePMpLq1MCrv8''),
        (200, RegisterTakerOk ''ec4916dd28fc4c10d78e287ca5d9cc51ee1ae73cbfde08c6b37324cbfaac8bc5''
                ''yH4tZ75tFHFe6EJ5fYH3ntePMpLq1MCrv8''))"
  by (simp add: post_register_taker_def first_taker_def lower_strip_first)

lemma first_swap_registration:
  "api_register_swap Map.empty 1700000000 (Some first_swap)
     = (Map.empty(''ec4916dd28fc4c10d78e287ca5d9cc51ee1ae73cbfde08c6b37324cbfaac8bc5'' \<mapsto>
          \<lparr> info_hashlock = ''ec4916dd28fc4c10d78e287ca5d9cc51ee1ae73cbfde08c6b37324cbfaac8bc5'',
            info_taker_kpiv_addr = ''yH4tZ75tFHFe6EJ5fYH3ntePMpLq1MCrv8'',
            info_lot_id = ''lot1'', info_registered_at = 1700000000,
            info_kpiv_sent = False, info_swap_id = None \<rparr>),
        (200, RegisterSwapOk ''ec4916dd28fc4c10''
           ''Swap registered. LP will send KPIV after detecting your USDC lock.''))"
  by (simp add: api_register_swap_def first_swap_def truthy_def startswith_def)

text \<open>
  C7, as stated, fails: a second registration of a registered hashlock is answered
  with 200 and replaces the stored taker address, on both endpoints.
\<close>

theorem duplicate_hashlock_counterexample:
  "fst (post_register_taker Map.empty first_taker)
       ''ec4916dd28fc4c10d78e287ca5d9cc51ee1ae73cbfde08c6b37324cbfaac8bc5''
     = Some ''yH4tZ75tFHFe6EJ5fYH3ntePMpLq1MCrv8'' \<and>
   post_register_taker (fst (post_register_taker Map.empty first_taker)) second_taker
     = ((fst (post_register_taker Map.empty first_taker))
          (''ec4916dd28fc4c10d78e287ca5d9cc51ee1ae73cbfde08c6b37324cbfaac8bc5''
             \<mapsto> ''y7XRqXgz1d8ELErDxtwQPnvfbe2ZcUecka''),
        (200, RegisterTakerOk ''ec4916dd28fc4c10d78e287ca5d9cc51ee1ae73cbfde08c6b37324cbfaac8bc5''
                ''y7XRqXgz1d8ELErDxtwQPnvfbe2ZcUecka'')) \<and>
   map_option info_taker_kpiv_addr
     (fst (api_register_swap Map.empty 1700000000 (Some first_swap))
        ''ec4916dd28fc4c10d78e287ca5d9cc51ee1ae73cbfde08c6b37324cbfaac8bc5'')
     = Some ''yH4tZ75tFHFe6EJ5fYH3ntePMpLq1MCrv8'' \<and>
   fst (snd (api_register_swap (fst (api_register_swap Map.empty 1700000000 (Some first_swap)))
               1700000050 (Some second_swap))) = 200 \<and>
   map_option info_taker_kpiv_addr
     (fst (api_register_swap (fst (api_register_swap Map.empty 1700000000 (Some first_swap)))
             1700000050 (Some second_swap))
        ''ec4916dd28fc4c10d78e287ca5d9cc51ee1ae73cbfde08c6b37324cbfaac8bc5'')
     = Some ''y7XRqXgz1d8ELErDxtwQPnvfbe2ZcUecka''"
  unfolding first_registration first_swap_registration fst_conv
  by (simp add: post_register_taker_def api_register_swap_def second_taker_def
        second_swap_def lower_strip_second truthy_def startswith_def)

text \<open>
  C7, amended. A registration is refused only for a missing field, for a hashlock that
  is not 64 characters once lowered and stripped (\<^verbatim>\<open>/api/register_taker\<close>) or for an
  address that does not start with \<open>x\<close> or \<open>y\<close> (\<^verbatim>\<open>/api/register\<close>). Every other
  registration is answered with 200 and stored, whether or not the hashlock is already
  registered: the stored taker address is replaced by the new one.
\<close>

theorem register_overwrites:
  "(h \<noteq> [] \<and> addr \<noteq> [] \<and> length (strip_0x (lower h)) = 64 \<longrightarrow>
      post_register_taker taker_registry \<lparr> rt_hashlock = Some h, rt_kpiv_address = Some addr \<rparr>
        = (taker_registry(strip_0x (lower h) \<mapsto> addr),
           (200, RegisterTakerOk (strip_0x (lower h)) addr))) \<and>
   (h \<noteq> [] \<and> addr \<noteq> [] \<and> lot \<noteq> [] \<and> (startswith addr ''x'' \<or> startswith addr ''y'') \<longrightarrow>
      api_register_swap pending now
          (Some \<lparr> rr_hashlock = Some h, rr_taker_kpiv_addr = Some addr, rr_lot_id = Some lot \<rparr>)
        = (pending(h \<mapsto> \<lparr> info_hashlock = h, info_taker_kpiv_addr = addr, info_lot_id = lot,
                           info_registered_at = now, info_kpiv_sent = False,
                           info_swap_id = None \<rparr>),
           (200, RegisterSwapOk (take 16 h)
              ''Swap registered. LP will send KPIV after detecting your USDC lock.'')))"
  by (simp add: post_register_taker_def api_register_swap_def truthy_def)

theorem register_overwrites_witness:
  "fst (post_register_taker
         (Map.empty(''ec4916dd28fc4c10d78e287ca5d9cc51ee1ae73cbfde08c6b37324cbfaac8bc5''
            \<mapsto> ''yH4tZ75tFHFe6EJ5fYH3ntePMpLq1MCrv8''))
         \<lparr> rt_hashlock = Some ''0xec4916dd28fc4c10d78e287ca5d9cc51ee1ae73cbfde08c6b37324cbfaac8bc5'',
           rt_kpiv_address = Some ''y7XRqXgz1d8ELErDxtwQPnvfbe2ZcUecka'' \<rparr>)
     ''ec4916dd28fc4c10d78e287ca5d9cc51ee1ae73cbfde08c6b37324cbfaac8bc5''
     = Some ''y7XRqXgz1d8ELErDxtwQPnvfbe2ZcUecka'' \<and>
   fst (snd (api_register_swap
         (Map.empty(''ec49'' \<mapsto> \<lparr> info_hashlock = ''ec49'', info_taker_kpiv_addr = ''yH4t'',
                         info_lot_id = ''lot1'', info_registered_at = 1700000000,
                         info_kpiv_sent = False, info_swap_id = None \<rparr>))
         1700000050
         (Some \<lparr> rr_hashlock = Some ''ec49'', rr_taker_kpiv_addr = Some ''y7XR'',
                 rr_lot_id = Some ''lot1'' \<rparr>))) = 200"
proof -
  have a: "strip_0x (lower ''0xec4916dd28fc4c10d78e287ca5d9cc51ee1ae73cbfde08c6b37324cbfaac8bc5'')
             = ''ec4916dd28fc4c10d78e287ca5d9cc51ee1ae73cbfde08c6b37324cbfaac8bc5''"
    by (simp add: hex_eval)
  have b: "startswith ''y7XR'' ''x'' \<or> startswith ''y7XR'' ''y''"
    by (simp add: startswith_def)
  from a b
    register_overwrites
      [of "''0xec4916dd28fc4c10d78e287ca5d9cc51ee1ae73cbfde08c6b37324cbfaac8bc5''"
          "''y7XRqXgz1d8ELErDxtwQPnvfbe2ZcUecka''"
          "Map.empty(''ec4916dd28fc4c10d78e287ca5d9cc51ee1ae73cbfde08c6b37324cbfaac8bc5''
            \<mapsto> ''yH4tZ75tFHFe6EJ5fYH3ntePMpLq1MCrv8'')"]
    register_overwrites
      [of "''ec49''" "''y7XR''" Map.empty "''lot1''"
          "Map.empty(''ec49'' \<mapsto> \<lparr> info_hashlock = ''ec49'', info_taker_kpiv_addr = ''yH4t'',
                         info_lot_id = ''lot1'', info_registered_at = 1700000000,
                         info_kpiv_sent = False, info_swap_id = None \<rparr>)" 1700000050]
  show ?thesis by simp
qed

section \<open>Refund boundaries\<close>

lemma secret_revealed_observed:
  "secret_revealed (observe_evm cv lp (observe_saved_secret sv (observe_lot l (SwapState_init i h))))
     = ((truthy lp \<and> (case cv_htlc cv of None \<Rightarrow> False
                        | Some e \<Rightarrow> truthy (cv_claimed_secret cv (el_swap_id e))))
        \<or> (case l of None \<Rightarrow> False | Some lot \<Rightarrow> lot_status lot = Some ''claimed''))"
  by (simp add: observe_evm_def observe_saved_secret_def observe_lot_def SwapState_init_def
           split: option.splits)

lemma piv_lot_status_observed:
  "piv_lot_status (observe_evm cv lp (observe_saved_secret sv (observe_lot l (SwapState_init i h))))
     = (case l of None \<Rightarrow> ''unknown'' | Some lot \<Rightarrow> get_default (lot_status lot) ''unknown'')"
  by (simp add: observe_evm_def observe_saved_secret_def observe_lot_def SwapState_init_def
           split: option.splits)

lemma evm_observed:
  "truthy lp \<Longrightarrow> cv_htlc cv = Some e \<Longrightarrow>
   evm_locked (observe_evm cv lp s) \<and>
   evm_time_left (observe_evm cv lp s) = max 0 (el_timelock e - cv_now cv)"
  by (simp add: observe_evm_def)

lemma taker_state_at:
  assumes "truthy lp" and "cv_htlc cv = Some e"
    and "\<not> truthy (cv_claimed_secret cv (el_swap_id e))"
    and "case cv_lot cv of None \<Rightarrow> True | Some lot \<Rightarrow> lot_status lot \<noteq> Some ''claimed''"
  shows "taker_state (compute_swap_state (cv\<lparr> cv_now := t \<rparr>) h lp)
           = (if el_timelock e \<le> t then ''refundable'' else ''locked'')"
proof -
  let ?cv = "cv\<lparr> cv_now := t \<rparr>"
  let ?s = "observe_evm ?cv lp (observe_saved_secret (cv_saved_secret ?cv)
              (observe_lot (cv_lot ?cv) (SwapState_init [] h)))"
  have rev: "\<not> secret_revealed ?s"
    using assms by (simp add: secret_revealed_observed split: option.splits)
  have st: "piv_lot_status ?s \<noteq> ''claimed''"
    using assms(4) by (auto simp add: piv_lot_status_observed get_default_def split: option.splits)
  have ev: "evm_locked ?s \<and> evm_time_left ?s = max 0 (el_timelock e - t)"
    using evm_observed [of lp ?cv e] assms(1,2) by simp
  show ?thesis
    unfolding compute_swap_state_def using rev st ev
    by (simp add: taker_state_derive_states)
qed

text \<open>
  C8, as stated, fails: at the instant \<open>now = quote_timelock\<close> the derived taker state
  is already REFUNDABLE, and at the height equal to the expiry height the native HTLC
  is already refundable.
\<close>

theorem refund_boundary_counterexample:
  "el_timelock (the (cv_htlc (quote_locked_view 1700014400))) = cv_now (quote_locked_view 1700014400) \<and>
   taker_state (compute_swap_state (quote_locked_view 1700014400) ''ec49'' (Some ''0xa1b4''))
     = ''refundable'' \<and>
   map_option htlc_expiry_height (HTLCWrapper_get (native_locked_rpc 1000) ''a425:0'')
     = Some (Some 1000) \<and>
   rpc_getblockcount (native_locked_rpc 1000) = Inr 1000 \<and>
   is_refundable (native_locked_rpc 1000) ''a425:0'' = Inr True"
  by (simp add: quote_locked_view_def native_locked_rpc_def observe_defs
        taker_state_derive_states is_refundable_def HTLCWrapper_get_def)

text \<open>
  C8, amended. In the swap status of the SDK server the quote side is not REFUNDABLE at
  \<open>now = quote_timelock\<close> and is REFUNDABLE at \<open>now = quote_timelock + 1\<close>. In the state
  derived by the swap watcher the taker is LOCKED at \<open>now = quote_timelock - 1\<close> and
  REFUNDABLE from \<open>now = quote_timelock\<close> on. On the native side \<^verbatim>\<open>is_refundable\<close> is
  false at the height \<open>expiry_height - 1\<close> and true from the height \<open>expiry_height\<close> on.
\<close>

theorem refund_boundaries:
  "(contract (case pending key of None \<Rightarrow> key | Some i \<Rightarrow> get_default (info_swap_id i) key) = Some sw
      \<and> \<not> sw_refunded sw \<and> \<not> sw_withdrawn sw \<longrightarrow>
      st_state (api_swap_status pending contract (sw_timelock sw) key) \<noteq> ''REFUNDABLE'' \<and>
      st_state (api_swap_status pending contract (sw_timelock sw + 1) key) = ''REFUNDABLE'') \<and>
   (truthy lp \<and> cv_htlc cv = Some e \<and> \<not> truthy (cv_claimed_secret cv (el_swap_id e))
      \<and> (case cv_lot cv of None \<Rightarrow> True | Some lot \<Rightarrow> lot_status lot \<noteq> Some ''claimed'') \<longrightarrow>
      taker_state (compute_swap_state (cv\<lparr> cv_now := el_timelock e - 1 \<rparr>) h lp) = ''locked'' \<and>
      taker_state (compute_swap_state (cv\<lparr> cv_now := el_timelock e \<rparr>) h lp) = ''refundable'' \<and>
      taker_state (compute_swap_state (cv\<lparr> cv_now := el_timelock e + 1 \<rparr>) h lp) = ''refundable'') \<and>
   (HTLCWrapper_get rpc outpoint = Some htlc \<and> htlc_status htlc \<noteq> Some ''claimed''
      \<and> htlc_status htlc \<noteq> Some ''refunded'' \<and> htlc_expiry_height htlc = Some expiry \<longrightarrow>
      is_refundable (rpc\<lparr> rpc_getblockcount := Inr (expiry - 1) \<rparr>) outpoint = Inr False \<and>
      is_refundable (rpc\<lparr> rpc_getblockcount := Inr expiry \<rparr>) outpoint = Inr True \<and>
      is_refundable (rpc\<lparr> rpc_getblockcount := Inr (expiry + 1) \<rparr>) outpoint = Inr True)"
proof (intro conjI impI)
  assume "contract (case pending key of None \<Rightarrow> key | Some i \<Rightarrow> get_default (info_swap_id i) key) = Some sw
      \<and> \<not> sw_refunded sw \<and> \<not> sw_withdrawn sw"
  then show "st_state (api_swap_status pending contract (sw_timelock sw) key) \<noteq> ''REFUNDABLE''"
    and "st_state (api_swap_status pending contract (sw_timelock sw + 1) key) = ''REFUNDABLE''"
    by (simp_all add: api_swap_status_def Let_def)
next
  assume a: "truthy lp \<and> cv_htlc cv = Some e \<and> \<not> truthy (cv_claimed_secret cv (el_swap_id e))
      \<and> (case cv_lot cv of None \<Rightarrow> True | Some lot \<Rightarrow> lot_status lot \<noteq> Some ''claimed'')"
  then show "taker_state (compute_swap_state (cv\<lparr> cv_now := el_timelock e - 1 \<rparr>) h lp) = ''locked''"
    and "taker_state (compute_swap_state (cv\<lparr> cv_now := el_timelock e \<rparr>) h lp) = ''refundable''"
    and "taker_state (compute_swap_state (cv\<lparr> cv_now := el_timelock e + 1 \<rparr>) h lp) = ''refundable''"
    by (simp_all add: taker_state_at)
next
  assume "HTLCWrapper_get rpc outpoint = Some htlc \<and> htlc_status htlc \<noteq> Some ''claimed''
      \<and> htlc_status htlc \<noteq> Some ''refunded'' \<and> htlc_expiry_height htlc = Some expiry"
  then show "is_refundable (rpc\<lparr> rpc_getblockcount := Inr (expiry - 1) \<rparr>) outpoint = Inr False"
    and "is_refundable (rpc\<lparr> rpc_getblockcount := Inr expiry \<rparr>) outpoint = Inr True"
    and "is_refundable (rpc\<lparr> rpc_getblockcount := Inr (expiry + 1) \<rparr>) outpoint = Inr True"
    by (simp_all add: is_refundable_def HTLCWrapper_get_def)
qed

theorem refund_boundaries_witness:
  "st_state (api_swap_status Map.empty quote_locked_contract 1700014400 ''0x01'') = ''LOCKED'' \<and>
   st_state (api_swap_status Map.empty quote_locked_contract 1700014401 ''0x01'') = ''REFUNDABLE'' \<and>
   taker_state (compute_swap_state (quote_locked_view 1700014399) ''ec49'' (Some ''0xa1b4''))
     = ''locked'' \<and>
   taker_state (compute_swap_state (quote_locked_view 1700014400) ''ec49'' (Some ''0xa1b4''))
     = ''refundable'' \<and>
   is_refundable (native_locked_rpc 999) ''a425:0'' = Inr False \<and>
   is_refundable (native_locked_rpc 1000) ''a425:0'' = Inr True"
proof -
  let ?sw = "\<lparr> sw_sender = ''0x51'', sw_recipient = ''0xa1b4'', sw_token = ''0x79a0'',
            sw_amount = 5, sw_hashlock = ''0xec49'', sw_timelock = 1700014400,
            sw_withdrawn = False, sw_refunded = False \<rparr>"
  let ?e = "\<lparr> el_swap_id = ''0x01'', el_hashlock = ''0xec49'', el_amount = 5,
             el_timelock = 1700014400 \<rparr>"
  let ?htlc = "\<lparr> htlc_status = Some ''locked'', htlc_expiry_height = Some 1000,
                htlc_preimage = None, htlc_outpoint = Some ''a425:0'' \<rparr>"
  have c: "quote_locked_contract (case Map.empty ''0x01'' of None \<Rightarrow> ''0x01''
             | Some i \<Rightarrow> get_default (info_swap_id i) ''0x01'') = Some ?sw
           \<and> \<not> sw_refunded ?sw \<and> \<not> sw_withdrawn ?sw"
    by (simp add: quote_locked_contract_def)
  have v: "truthy (Some ''0xa1b4'') \<and> cv_htlc (quote_locked_view 0) = Some ?e
           \<and> \<not> truthy (cv_claimed_secret (quote_locked_view 0) (el_swap_id ?e))
           \<and> (case cv_lot (quote_locked_view 0) of None \<Rightarrow> True
               | Some lot \<Rightarrow> lot_status lot \<noteq> Some ''claimed'')"
    by (simp add: quote_locked_view_def truthy_def)
  have n: "HTLCWrapper_get (native_locked_rpc 0) ''a425:0'' = Some ?htlc
           \<and> htlc_status ?htlc \<noteq> Some ''claimed'' \<and> htlc_status ?htlc \<noteq> Some ''refunded''
           \<and> htlc_expiry_height ?htlc = Some 1000"
    by (simp add: native_locked_rpc_def HTLCWrapper_get_def)
  have upd: "\<And>t. (quote_locked_view 0)\<lparr> cv_now := t \<rparr> = quote_locked_view t"
    "\<And>k. (native_locked_rpc 0)\<lparr> rpc_getblockcount := Inr k \<rparr> = native_locked_rpc k"
    by (simp_all add: quote_locked_view_def native_locked_rpc_def)
  from c v n
    refund_boundaries [where contract = quote_locked_contract and pending = Map.empty
      and key = "''0x01''" and sw = ?sw and lp = "Some ''0xa1b4''" and cv = "quote_locked_view 0"
      and e = ?e and h = "''ec49''" and rpc = "native_locked_rpc 0" and outpoint = "''a425:0''"
      and htlc = ?htlc and expiry = 1000]
  have "st_state (api_swap_status Map.empty quote_locked_contract 1700014400 ''0x01'') \<noteq> ''REFUNDABLE'' \<and>
     st_state (api_swap_status Map.empty quote_locked_contract 1700014401 ''0x01'') = ''REFUNDABLE'' \<and>
     taker_state (compute_swap_state (quote_locked_view 1700014399) ''ec49'' (Some ''0xa1b4'')) = ''locked'' \<and>
     taker_state (compute_swap_state (quote_locked_view 1700014400) ''ec49'' (Some ''0xa1b4'')) = ''refundable'' \<and>
     is_refundable (native_locked_rpc 999) ''a425:0'' = Inr False \<and>
     is_refundable (native_locked_rpc 1000) ''a425:0'' = Inr True"
    by (simp add: upd)
  moreover have "st_state (api_swap_status Map.empty quote_locked_contract 1700014400 ''0x01'') = ''LOCKED''"
    by (simp add: api_swap_status_def quote_locked_contract_def)
  ultimately show ?thesis by simp
qed

section \<open>The LP orchestrator\<close>

lemma short_hashlock_stripped:
  "strip_0x ''0xec4916dd28fc4c10d78e287ca5d9cc51ee1ae73cbfde08c6b37324cbfaac8bc5''
     = ''ec4916dd28fc4c10d78e287ca5d9cc51ee1ae73cbfde08c6b37324cbfaac8bc5''"
  by (simp add: strip_0x_def startswith_def)

lemma process_short_lock:
  "process_new_lock answering_env 1700000000 [] short_lock
     = ([(lock_hashlock short_lock, short_swap)],
        [RpcHtlcCreateKpiv ''ec4916dd28fc4c10d78e287ca5d9cc51ee1ae73cbfde08c6b37324cbfaac8bc5''
           100 ''yH4tZ75tFHFe6EJ5fYH3ntePMpLq1MCrv8'' 120,
         NotifyTradeExecuted 100
           ''0xec4916dd28fc4c10d78e287ca5d9cc51ee1ae73cbfde08c6b37324cbfaac8bc5'' ''htlc_created''])"
proof -
  have e: "process_new_lock answering_env 1700000000 [] short_lock
     = ([(''0xec4916dd28fc4c10d78e287ca5d9cc51ee1ae73cbfde08c6b37324cbfaac8bc5'',
          \<lparr> ps_hashlock = ''0xec4916dd28fc4c10d78e287ca5d9cc51ee1ae73cbfde08c6b37324cbfaac8bc5'',
            polygon_swap_id = ''0x01'', usdc_amount = 5, kpiv_amount = 100,
            polygon_timelock = 1700000060, kpiv_htlc_outpoint = ''a4258e74:0'',
            kpiv_htlc_created = True, preimage_revealed = [], usdc_claimed = False,
            created_at = 1700000000 \<rparr>)],
        [RpcHtlcCreateKpiv ''ec4916dd28fc4c10d78e287ca5d9cc51ee1ae73cbfde08c6b37324cbfaac8bc5''
           100 ''yH4tZ75tFHFe6EJ5fYH3ntePMpLq1MCrv8'' 120,
         NotifyTradeExecuted 100
           ''0xec4916dd28fc4c10d78e287ca5d9cc51ee1ae73cbfde08c6b37324cbfaac8bc5'' ''htlc_created''])"
    apply (simp add: short_lock_def)
    apply (simp add: process_new_lock_def)
    apply (simp add: try_create_kpiv_htlc_def create_kpiv_htlc_def get_taker_kpiv_address_def
             answering_env_def short_hashlock_stripped truthy_def LP_PRICE_def)
    done
  have k: "(lock_hashlock short_lock, short_swap)
     = (''0xec4916dd28fc4c10d78e287ca5d9cc51ee1ae73cbfde08c6b37324cbfaac8bc5'',
        \<lparr> ps_hashlock = ''0xec4916dd28fc4c10d78e287ca5d9cc51ee1ae73cbfde08c6b37324cbfaac8bc5'',
          polygon_swap_id = ''0x01'', usdc_amount = 5, kpiv_amount = 100,
          polygon_timelock = 1700000060, kpiv_htlc_outpoint = ''a4258e74:0'',
          kpiv_htlc_created = True, preimage_revealed = [], usdc_claimed = False,
          created_at = 1700000000 \<rparr>)"
    by (simp add: short_swap_def short_lock_def)
  show ?thesis
    unfolding e k by (rule refl)
qed

text \<open>
  C2, as stated, fails: a quote lock that expires 60 seconds after it is seen, far
  short of the native expiry of 120 blocks plus the buffer of 1800 seconds, is answered
  with a native HTLC.
\<close>

theorem timelock_unchecked_counterexample:
  "\<not> spec_timelock_policy_ok (lock_timelock short_lock) 1700000000 120 1800 \<and>
   process_new_lock answering_env 1700000000 [] short_lock
     = ([(lock_hashlock short_lock, short_swap)],
        [RpcHtlcCreateKpiv ''ec4916dd28fc4c10d78e287ca5d9cc51ee1ae73cbfde08c6b37324cbfaac8bc5''
           100 ''yH4tZ75tFHFe6EJ5fYH3ntePMpLq1MCrv8'' 120,
         NotifyTradeExecuted 100
           ''0xec4916dd28fc4c10d78e287ca5d9cc51ee1ae73cbfde08c6b37324cbfaac8bc5'' ''htlc_created'']) \<and>
   kpiv_htlc_created short_swap \<and>
   polygon_timelock short_swap = 1700000060"
proof -
  have a: "\<not> spec_timelock_policy_ok (lock_timelock short_lock) 1700000000 120 1800"
    by (simp add: spec_timelock_policy_ok_def short_lock_def)
  have b: "kpiv_htlc_created short_swap \<and> polygon_timelock short_swap = 1700000060"
    by (simp add: short_swap_def)
  from a b process_short_lock show ?thesis
    by blast
qed

text \<open>
  C2, amended. For every detected quote-side lock whose hashlock is not yet pending,
  the LP orchestrator creates the native HTLC (expiry 120 blocks) as soon as the taker's
  native address is registered and the daemon's \<^verbatim>\<open>htlc_create_kpiv\<close> succeeds. The observed
  quote timelock is stored in the pending swap and not consulted: the outcome is the
  same for every timelock, on first sight of the lock and on every retry.
\<close>

theorem native_htlc_whatever_the_timelock:
  "(lock_hashlock lock \<notin> set (map fst pending_swaps) \<and>
    env_taker_address env (strip_0x (lock_hashlock lock)) = Some addr \<and> addr \<noteq> [] \<and>
    env_htlc_create_kpiv env (strip_0x (lock_hashlock lock)) (lock_amount lock / LP_PRICE) addr 120
      = Some txid \<longrightarrow>
    process_new_lock env now pending_swaps (lock\<lparr> lock_timelock := t \<rparr>)
      = (pending_swaps @
           [(lock_hashlock lock,
             \<lparr> ps_hashlock = lock_hashlock lock, polygon_swap_id = lock_swap_id lock,
               usdc_amount = lock_amount lock, kpiv_amount = lock_amount lock / LP_PRICE,
               polygon_timelock = t, kpiv_htlc_outpoint = txid @ '':0'',
               kpiv_htlc_created = True, preimage_revealed = [], usdc_claimed = False,
               created_at = now \<rparr>)],
         [RpcHtlcCreateKpiv (strip_0x (lock_hashlock lock)) (lock_amount lock / LP_PRICE) addr 120,
          NotifyTradeExecuted (lock_amount lock / LP_PRICE) (lock_hashlock lock) ''htlc_created''])) \<and>
   try_create_kpiv_htlc env (swap\<lparr> polygon_timelock := t \<rparr>)
     = (case try_create_kpiv_htlc env swap of (s, acts) \<Rightarrow> (s\<lparr> polygon_timelock := t \<rparr>, acts))"
  by (simp add: process_new_lock_def try_create_kpiv_htlc_def create_kpiv_htlc_def
        get_taker_kpiv_address_def truthy_def split: option.splits)

theorem native_htlc_whatever_the_timelock_witness:
  "lock_hashlock short_lock \<notin> set (map fst []) \<and>
   kpiv_htlc_created
     (snd (hd (fst (process_new_lock answering_env 1700000000 []
                      (short_lock\<lparr> lock_timelock := 0 \<rparr>))))) \<and>
   polygon_timelock
     (snd (hd (fst (process_new_lock answering_env 1700000000 []
                      (short_lock\<lparr> lock_timelock := 0 \<rparr>))))) = 0"
proof -
  have a: "lock_hashlock short_lock \<notin> set (map fst ([] :: (string \<times> PendingSwap) list)) \<and>
    env_taker_address answering_env (strip_0x (lock_hashlock short_lock))
      = Some ''yH4tZ75tFHFe6EJ5fYH3ntePMpLq1MCrv8'' \<and>
    ''yH4tZ75tFHFe6EJ5fYH3ntePMpLq1MCrv8'' \<noteq> [] \<and>
    env_htlc_create_kpiv answering_env (strip_0x (lock_hashlock short_lock))
      (lock_amount short_lock / LP_PRICE) ''yH4tZ75tFHFe6EJ5fYH3ntePMpLq1MCrv8'' 120 = Some ''a4258e74''"
    by (simp add: answering_env_def)
  from a native_htlc_whatever_the_timelock
    [where lock = short_lock and pending_swaps = "[]" and env = answering_env
       and addr = "''yH4tZ75tFHFe6EJ5fYH3ntePMpLq1MCrv8''" and txid = "''a4258e74''"
       and now = 1700000000 and t = 0]
  show ?thesis by simp
qed

lemma check_for_reveals_actions:
  "snd (check_for_reveals env ps) = concat (map (\<lambda>(h, s). snd (check_reveal env h s)) ps)"
  by (induction ps) (auto split: prod.splits)

lemma check_for_reveals_swaps:
  "fst (check_for_reveals env ps) = map (\<lambda>(h, s). (h, fst (check_reveal env h s))) ps"
  by (induction ps) (auto split: prod.splits)

lemma fromhex_key:
  "fromhex ''4c0883a69102937d6231471b5dbb6204fe5129617082792ae468d01a3f362318''
     = Some lp_key_bytes"
  by (simp add: hexval_def py_isspace_def lp_key_bytes_def)

lemma from_key_answering:
  "Account_from_key (env_private_key answering_env) = Some lp_key_bytes"
proof -
  have k: "env_private_key answering_env
             = ''0x4c0883a69102937d6231471b5dbb6204fe5129617082792ae468d01a3f362318''"
    by (simp add: answering_env_def)
  have w: "\<not> list_ex py_isspace
               ''0x4c0883a69102937d6231471b5dbb6204fe5129617082792ae468d01a3f362318''"
    by (simp add: py_isspace_def)
  have e: "(if odd (length
                 ''0x4c0883a69102937d6231471b5dbb6204fe5129617082792ae468d01a3f362318'')
            then ''0'' else [])
           @ (if startswith
                   ''0x4c0883a69102937d6231471b5dbb6204fe5129617082792ae468d01a3f362318''
                   ''0x''
                 \<or> startswith
                     ''0x4c0883a69102937d6231471b5dbb6204fe5129617082792ae468d01a3f362318''
                     ''0X''
              then drop 2
                     ''0x4c0883a69102937d6231471b5dbb6204fe5129617082792ae468d01a3f362318''
              else ''0x4c0883a69102937d6231471b5dbb6204fe5129617082792ae468d01a3f362318'')
           = ''4c0883a69102937d6231471b5dbb6204fe5129617082792ae468d01a3f362318''"
    by (simp add: startswith_def)
  have h: "hexstr_to_bytes
             ''0x4c0883a69102937d6231471b5dbb6204fe5129617082792ae468d01a3f362318''
           = Some lp_key_bytes"
    unfolding hexstr_to_bytes_def e fromhex_key
    by (simp only: w if_False)
  have n: "length lp_key_bytes = 32 \<and> from_bytes_big lp_key_bytes < secp256k1_N"
    by (simp add: lp_key_bytes_def from_bytes_big_def secp256k1_N_def)
  show ?thesis
    unfolding k Account_from_key_def h
    by (simp only: n option.case if_True simp_thms)
qed

lemma fromhex_abs:
  "fromhex ''abababababababababababababababababababababababababababababababab''
     = Some (replicate 32 171)"
  by (simp add: hexval_def py_isspace_def replicate_numeral)

lemma claim_usdc_sends:
  assumes "Account_from_key (env_private_key env) = Some key"
    and "fromhex (strip_0x sid) = Some sid_bytes" and "length sid_bytes = 32"
    and "fromhex (strip_0x p) = Some preimage_bytes" and "length preimage_bytes = 32"
    and "env_sign_claim env key sid_bytes preimage_bytes = Some raw"
  shows "claim_usdc env sid p = (env_send_raw env raw, [EvmClaim sid_bytes preimage_bytes])"
proof -
  have "Account_from_key [] = None"
    by (simp add: Account_from_key_def hexstr_to_bytes_def startswith_def)
  then have "env_private_key env \<noteq> []"
    using assms(1) by auto
  then show ?thesis
    using assms by (simp add: claim_usdc_def)
qed

lemma claim_usdc_sent:
  assumes "EvmClaim s b \<in> set (snd (claim_usdc env sid p))"
  shows "fromhex (strip_0x sid) = Some s \<and> length s = 32 \<and>
         fromhex (strip_0x p) = Some b \<and> length b = 32 \<and>
         (\<exists>key. Account_from_key (env_private_key env) = Some key \<and>
                env_sign_claim env key s b \<noteq> None)"
  using assms
  by (auto simp add: claim_usdc_def split: if_splits option.splits)

lemma reveal_created_swap:
  "check_reveal answering_env (ps_hashlock created_swap) created_swap
     = (created_swap\<lparr> preimage_revealed :=
                          ''1111111111111111111111111111111111111111111111111111111111111111'',
                      usdc_claimed := True \<rparr>,
        [EvmClaim (replicate 32 171) (replicate 32 17)])"
proof -
  let ?p = "''1111111111111111111111111111111111111111111111111111111111111111''"
  let ?sid = "''0xabababababababababababababababababababababababababababababababab''"
  have s0: "strip_0x ?sid
              = ''abababababababababababababababababababababababababababababababab''"
    "strip_0x ?p = ?p"
    by (simp_all add: strip_0x_def startswith_def)
  have s1: "fromhex (strip_0x ?sid) = Some (replicate 32 171)"
    unfolding s0 by (rule fromhex_abs)
  have s2: "fromhex (strip_0x ?p) = Some (replicate 32 17)"
    unfolding s0 by (rule fromhex_ones)
  have e: "env_sign_claim answering_env lp_key_bytes (replicate 32 171) (replicate 32 17)
             = Some (replicate 32 171 @ replicate 32 17)"
    "env_send_raw answering_env (replicate 32 171 @ replicate 32 17) = Some ''0x9fc76417''"
    by (simp_all add: answering_env_def)
  have c: "claim_usdc answering_env ?sid ?p
           = (Some ''0x9fc76417'', [EvmClaim (replicate 32 171) (replicate 32 17)])"
    using claim_usdc_sends [OF from_key_answering s1 _ s2 _ e(1)]
    unfolding e(2) by simp
  have g: "get_htlc_by_hashlock answering_env h
           = Some \<lparr> htlc_status = Some ''claimed'', htlc_expiry_height = Some 2000,
                    htlc_preimage = Some ?p, htlc_outpoint = Some ''a4258e74:0'' \<rparr>" for h
    by (simp add: get_htlc_by_hashlock_def answering_env_def)
  have p: "polygon_swap_id created_swap = ?sid" "\<not> usdc_claimed created_swap"
    "kpiv_htlc_created created_swap"
    by (simp_all add: created_swap_def)
  show ?thesis
    unfolding check_reveal_def g
    by (simp add: p c truthy_def)
qed

text \<open>
  C3, as stated, fails: the preimage the daemon reports for the claimed native HTLC is
  sent in the quote-side claim, and the swap marked as claimed, although the SHA-256 of
  that preimage is not the swap's hashlock.
\<close>

theorem unverified_preimage_counterexample:
  "\<not> verify_preimage (strip_0x (ps_hashlock created_swap))
       ''1111111111111111111111111111111111111111111111111111111111111111'' \<and>
   check_for_reveals answering_env [(ps_hashlock created_swap, created_swap)]
     = ([(ps_hashlock created_swap,
          created_swap\<lparr> preimage_revealed :=
                            ''1111111111111111111111111111111111111111111111111111111111111111'',
                        usdc_claimed := True \<rparr>)],
        [EvmClaim (replicate 32 171) (replicate 32 17)])"
proof -
  have "strip_0x (ps_hashlock created_swap)
          = ''ec4916dd28fc4c10d78e287ca5d9cc51ee1ae73cbfde08c6b37324cbfaac8bc5''"
    by (simp add: created_swap_def strip_0x_def startswith_def)
  then show ?thesis
    by (simp add: ones_do_not_open reveal_created_swap)
qed

text \<open>
  C3, amended. Let a pending swap be not yet claimed, with its native HTLC created and
  listed by the daemon as claimed with a non-empty preimage. If the configured private
  key is one \<^verbatim>\<open>Account.from_key\<close> accepts (32 bytes, below the group order), the swap id
  and the reported preimage are hex of exactly 32 bytes each, and the claim transaction
  can be built and signed, then the LP orchestrator calls \<^verbatim>\<open>send_raw_transaction\<close> with
  the claim of that swap id and that preimage, records the preimage, and marks the swap
  claimed exactly when a non-empty transaction hash comes back. Conversely every claim
  it sends carries the preimage reported for a claimed HTLC, decoded, of 32 bytes, under
  a swap id of 32 bytes and an accepted key. The hashlock is used only to look the HTLC
  up: the SHA-256 of the preimage is not compared with it.
\<close>

theorem reported_preimage_is_claimed:
  "(\<not> usdc_claimed swap \<and> kpiv_htlc_created swap \<and>
    get_htlc_by_hashlock env (strip_0x h) = Some htlc \<and>
    htlc_status htlc = Some ''claimed'' \<and> htlc_preimage htlc = Some p \<and> p \<noteq> [] \<and>
    Account_from_key (env_private_key env) = Some key \<and>
    fromhex (strip_0x (polygon_swap_id swap)) = Some sid_bytes \<and> length sid_bytes = 32 \<and>
    fromhex (strip_0x p) = Some preimage_bytes \<and> length preimage_bytes = 32 \<and>
    env_sign_claim env key sid_bytes preimage_bytes = Some raw \<longrightarrow>
      check_reveal env h swap
        = (swap\<lparr> preimage_revealed := p, usdc_claimed := truthy (env_send_raw env raw) \<rparr>,
           [EvmClaim sid_bytes preimage_bytes]) \<and>
      ((h, swap) \<in> set pending_swaps \<longrightarrow>
         EvmClaim sid_bytes preimage_bytes
           \<in> set (snd (check_for_reveals env pending_swaps)))) \<and>
   (EvmClaim s b \<in> set (snd (check_reveal env h swap)) \<longrightarrow>
      \<not> usdc_claimed swap \<and> kpiv_htlc_created swap \<and>
      fromhex (strip_0x (polygon_swap_id swap)) = Some s \<and> length s = 32 \<and> length b = 32 \<and>
      (\<exists>key'. Account_from_key (env_private_key env) = Some key') \<and>
      (\<exists>htlc' p'. get_htlc_by_hashlock env (strip_0x h) = Some htlc' \<and>
                  htlc_status htlc' = Some ''claimed'' \<and> htlc_preimage htlc' = Some p' \<and>
                  fromhex (strip_0x p') = Some b)) \<and>
   (get_htlc_by_hashlock env (strip_0x h') = get_htlc_by_hashlock env (strip_0x h) \<longrightarrow>
      check_reveal env h' swap = check_reveal env h swap)"
proof (intro conjI impI)
  assume a: "\<not> usdc_claimed swap \<and> kpiv_htlc_created swap \<and>
    get_htlc_by_hashlock env (strip_0x h) = Some htlc \<and>
    htlc_status htlc = Some ''claimed'' \<and> htlc_preimage htlc = Some p \<and> p \<noteq> [] \<and>
    Account_from_key (env_private_key env) = Some key \<and>
    fromhex (strip_0x (polygon_swap_id swap)) = Some sid_bytes \<and> length sid_bytes = 32 \<and>
    fromhex (strip_0x p) = Some preimage_bytes \<and> length preimage_bytes = 32 \<and>
    env_sign_claim env key sid_bytes preimage_bytes = Some raw"
  then have c: "claim_usdc env (polygon_swap_id swap) p
                  = (env_send_raw env raw, [EvmClaim sid_bytes preimage_bytes])"
    using claim_usdc_sends
      [where env = env and key = key and sid = "polygon_swap_id swap"
         and sid_bytes = sid_bytes and p = p and preimage_bytes = preimage_bytes
         and raw = raw]
    by blast
  from a show r: "check_reveal env h swap
        = (swap\<lparr> preimage_revealed := p, usdc_claimed := truthy (env_send_raw env raw) \<rparr>,
           [EvmClaim sid_bytes preimage_bytes])"
    by (simp add: check_reveal_def c truthy_def)
  assume "(h, swap) \<in> set pending_swaps"
  then show "EvmClaim sid_bytes preimage_bytes \<in> set (snd (check_for_reveals env pending_swaps))"
    using r by (force simp add: check_for_reveals_actions)
next
  assume m: "EvmClaim s b \<in> set (snd (check_reveal env h swap))"
  then have u: "\<not> usdc_claimed swap" "kpiv_htlc_created swap"
    by (auto simp add: check_reveal_def split: if_splits)
  from m u obtain htlc' where g: "get_htlc_by_hashlock env (strip_0x h) = Some htlc'"
    by (auto simp add: check_reveal_def split: option.splits)
  from m u g have t: "htlc_status htlc' = Some ''claimed''" "truthy (htlc_preimage htlc')"
    by (auto simp add: check_reveal_def split: if_splits)
  then obtain p' where p': "htlc_preimage htlc' = Some p'"
    by (cases "htlc_preimage htlc'") (auto simp add: truthy_def)
  from m u g t p' have "EvmClaim s b \<in> set (snd (claim_usdc env (polygon_swap_id swap) p'))"
    by (auto simp add: check_reveal_def split: prod.splits)
  note f = claim_usdc_sent [OF this]
  show "\<not> usdc_claimed swap" by (rule u)
  show "kpiv_htlc_created swap" by (rule u)
  show "fromhex (strip_0x (polygon_swap_id swap)) = Some s" using f by simp
  show "length s = 32" using f by simp
  show "length b = 32" using f by simp
  show "\<exists>key'. Account_from_key (env_private_key env) = Some key'" using f by blast
  show "\<exists>htlc' p'. get_htlc_by_hashlock env (strip_0x h) = Some htlc' \<and>
                  htlc_status htlc' = Some ''claimed'' \<and> htlc_preimage htlc' = Some p' \<and>
                  fromhex (strip_0x p') = Some b"
    using g t p' f by blast
next
  assume "get_htlc_by_hashlock env (strip_0x h') = get_htlc_by_hashlock env (strip_0x h)"
  then show "check_reveal env h' swap = check_reveal env h swap"
    by (simp add: check_reveal_def)
qed

text \<open>
  The amended property at the pending swap of 32-byte swap id, where the reported
  preimage of 32 bytes 0x11 does not open the hashlock.
\<close>

theorem reported_preimage_is_claimed_witness:
  "\<not> verify_preimage (strip_0x (ps_hashlock created_swap))
       ''1111111111111111111111111111111111111111111111111111111111111111'' \<and>
   check_reveal answering_env (ps_hashlock created_swap) created_swap
     = (created_swap\<lparr> preimage_revealed :=
                          ''1111111111111111111111111111111111111111111111111111111111111111'',
                      usdc_claimed := True \<rparr>,
        [EvmClaim (replicate 32 171) (replicate 32 17)]) \<and>
   EvmClaim (replicate 32 171) (replicate 32 17)
     \<in> set (snd (check_for_reveals answering_env [(ps_hashlock created_swap, created_swap)]))"
proof -
  let ?p = "''1111111111111111111111111111111111111111111111111111111111111111''"
  let ?htlc = "\<lparr> htlc_status = Some ''claimed'', htlc_expiry_height = Some 2000,
                 htlc_preimage = Some ?p, htlc_outpoint = Some ''a4258e74:0'' \<rparr>"
  let ?raw = "replicate 32 171 @ replicate 32 (17 :: byte)"
  have s: "strip_0x (polygon_swap_id created_swap)
             = ''abababababababababababababababababababababababababababababababab''"
    "strip_0x ?p = ?p"
    "strip_0x (ps_hashlock created_swap)
       = ''ec4916dd28fc4c10d78e287ca5d9cc51ee1ae73cbfde08c6b37324cbfaac8bc5''"
    by (simp_all add: strip_0x_def startswith_def created_swap_def)
  have a: "\<not> usdc_claimed created_swap \<and> kpiv_htlc_created created_swap \<and>
     get_htlc_by_hashlock answering_env (strip_0x (ps_hashlock created_swap)) = Some ?htlc \<and>
     htlc_status ?htlc = Some ''claimed'' \<and> htlc_preimage ?htlc = Some ?p \<and> ?p \<noteq> [] \<and>
     Account_from_key (env_private_key answering_env) = Some lp_key_bytes \<and>
     fromhex (strip_0x (polygon_swap_id created_swap)) = Some (replicate 32 171) \<and>
     length (replicate 32 (171 :: byte)) = 32 \<and>
     fromhex (strip_0x ?p) = Some (replicate 32 17) \<and>
     length (replicate 32 (17 :: byte)) = 32 \<and>
     env_sign_claim answering_env lp_key_bytes (replicate 32 171) (replicate 32 17)
       = Some ?raw"
    unfolding s fromhex_abs fromhex_ones from_key_answering
    by (simp add: created_swap_def get_htlc_by_hashlock_def answering_env_def)
  have t: "truthy (env_send_raw answering_env ?raw) = True"
    by (simp add: answering_env_def truthy_def)
  have m: "(ps_hashlock created_swap, created_swap)
             \<in> set [(ps_hashlock created_swap, created_swap)]"
    by simp
  have v: "\<not> verify_preimage (strip_0x (ps_hashlock created_swap)) ?p"
    unfolding s by (rule ones_do_not_open)
  note r = reported_preimage_is_claimed
    [where swap = created_swap and env = answering_env and h = "ps_hashlock created_swap"
       and htlc = ?htlc and p = ?p and key = lp_key_bytes
       and sid_bytes = "replicate 32 171" and preimage_bytes = "replicate 32 17"
       and raw = ?raw and pending_swaps = "[(ps_hashlock created_swap, created_swap)]"
       and s = "replicate 32 171" and b = "replicate 32 17"
       and h' = "ps_hashlock created_swap"]
  note c = mp [OF conjunct1 [OF r] a]
  note c1 = conjunct1 [OF c] and c2 = mp [OF conjunct2 [OF c] m]
  from v c1 [unfolded t] c2 show ?thesis
    by (intro conjI)
qed


section \<open>The preimage in a script-sig\<close>

lemma unat_byte_of_nat: "n < 256 \<Longrightarrow> unat (of_nat n :: byte) = n"
  by (simp add: unat_of_nat)

lemma bytes_hex_Cons: "bytes_hex (b # bs) = hex_of_byte b @ bytes_hex bs"
  by (simp add: bytes_hex_def)

lemma bytes_hex_zeros: "bytes_hex (replicate n 0) = replicate (2 * n) CHR ''0''"
  by (induction n) (simp_all add: bytes_hex_def hex_of_byte_def hexchar_def)

lemma all_zero_hex: "(bytes_hex d = replicate 64 CHR ''0'') = (d = replicate 32 0)"
proof
  assume "bytes_hex d = replicate 64 CHR ''0''"
  then have "bytes_hex d = bytes_hex (replicate 32 0)"
    by (simp add: bytes_hex_zeros)
  then show "d = replicate 32 0"
    by (rule bytes_hex_inj)
next
  assume "d = replicate 32 0"
  then show "bytes_hex d = replicate 64 CHR ''0''"
    by (simp add: bytes_hex_zeros)
qed

lemma hex_of_byte_inj: "hex_of_byte a = hex_of_byte b \<Longrightarrow> a = b"
proof -
  assume "hex_of_byte a = hex_of_byte b"
  then have "bytes_hex [a] = bytes_hex [b]"
    by (simp add: bytes_hex_def)
  then have "[a] = [b]"
    by (rule bytes_hex_inj)
  then show ?thesis by simp
qed

lemma length_hex_of_byte: "length (hex_of_byte b) = 2"
  by (simp add: hex_of_byte_def)

lemma startswith_hex:
  assumes "d \<noteq> []"
  shows "startswith (bytes_hex d) (hex_of_byte b) = (hd d = b)"
proof (cases d)
  case Nil
  with assms show ?thesis by simp
next
  case (Cons a list)
  have "take 2 (hex_of_byte a @ bytes_hex list) = hex_of_byte a"
    by (simp add: length_hex_of_byte)
  then have "startswith (bytes_hex d) (hex_of_byte b) = (hex_of_byte a = hex_of_byte b)"
    using Cons by (simp add: startswith_def bytes_hex_Cons length_hex_of_byte)
  also have "\<dots> = (a = b)"
    using hex_of_byte_inj by blast
  finally show ?thesis
    using Cons by simp
qed

lemma hex_02_03: "hex_of_byte 2 = ''02''" "hex_of_byte 3 = ''03''"
  by (simp_all add: hex_of_byte_def hexchar_def)

lemma scan_direct:
  assumes "1 \<le> length d" and "length d \<le> 75"
  shows "scan_pushes (serialize_item (DirectPush d) @ rest) =
           (case preimage_candidate (DirectPush d) of
              Some c \<Rightarrow> Some (bytes_hex c)
            | None \<Rightarrow> scan_pushes rest)"
proof -
  have u: "unat (of_nat (length d) :: byte) = length d"
    using assms by (simp add: unat_byte_of_nat)
  have nz: "(of_nat (length d) :: byte) \<noteq> 0"
    using u assms by (metis not_one_le_zero unsigned_0)
  have le: "(of_nat (length d) :: byte) \<le> 75"
    using u assms by (simp add: word_le_nat_alt)
  have eq: "((of_nat (length d) :: byte) = 32) = (length d = 32)"
  proof
    assume "(of_nat (length d) :: byte) = 32"
    then have "unat (of_nat (length d) :: byte) = unat (32 :: byte)" by simp
    with u show "length d = 32" by simp
  next
    assume "length d = 32"
    then show "(of_nat (length d) :: byte) = 32" by simp
  qed
  have ne: "d \<noteq> []" using assms by auto
  show ?thesis
  proof (cases "length d = 32")
    case True
    then show ?thesis
      using nz le eq ne
      by (simp add: all_zero_hex startswith_hex [of d 2, unfolded hex_02_03]
            startswith_hex [of d 3, unfolded hex_02_03])
  next
    case False
    then show ?thesis
      using nz le eq u by simp
  qed
qed

lemma scan_pushdata1:
  assumes "length d \<le> 255"
  shows "scan_pushes (serialize_item (PushData1 d) @ rest) = scan_pushes rest"
proof -
  have u: "unat (of_nat (length d) :: byte) = length d"
    using assms by (simp add: unat_byte_of_nat)
  have "\<not> (76 :: byte) \<le> 75"
    by simp
  then show ?thesis
    using u by simp
qed

lemma scan_pushdata2:
  assumes "length d \<le> 65535"
  shows "scan_pushes (serialize_item (PushData2 d) @ rest) = scan_pushes rest"
proof -
  have lo: "unat (of_nat (length d mod 256) :: byte) = length d mod 256"
    by (simp add: unat_byte_of_nat)
  have "length d div 256 < 256"
    using assms by simp
  then have hi: "unat (of_nat (length d div 256) :: byte) = length d div 256"
    by (simp add: unat_byte_of_nat)
  have n: "\<not> (77 :: byte) \<le> 75"
    by simp
  show ?thesis
    using n lo hi by simp
qed

lemma scan_opzero: "scan_pushes (serialize_item OpZero @ rest) = scan_pushes rest"
  by simp

lemma scan_opcode:
  assumes "78 \<le> c"
  shows "scan_pushes (serialize_item (OpCode c) @ rest) = scan_pushes rest"
proof -
  have "78 \<le> unat c"
    using assms by (simp add: word_le_nat_alt)
  then have "c \<noteq> 0" "\<not> c \<le> 75" "c \<noteq> 76" "c \<noteq> 77"
    by (auto simp add: word_le_nat_alt)
  then show ?thesis
    by simp
qed

lemma scan_item:
  "well_formed_item i \<Longrightarrow>
   scan_pushes (serialize_item i @ rest) =
     (case preimage_candidate i of
        Some c \<Rightarrow> Some (bytes_hex c)
      | None \<Rightarrow> scan_pushes rest)"
proof (cases i)
  case (DirectPush d)
  assume "well_formed_item i"
  with DirectPush show ?thesis
    using scan_direct [of d rest] by simp
next
  case (PushData1 d)
  assume "well_formed_item i"
  with PushData1 show ?thesis
    using scan_pushdata1 [of d rest] by simp
next
  case (PushData2 d)
  assume "well_formed_item i"
  with PushData2 show ?thesis
    using scan_pushdata2 [of d rest] by simp
next
  case OpZero
  then show ?thesis by simp
next
  case (OpCode c)
  assume "well_formed_item i"
  with OpCode show ?thesis
    using scan_opcode [of c rest] by simp
qed

lemma scan_script:
  "list_all well_formed_item items \<Longrightarrow>
   scan_pushes (serialize_script items) = map_option bytes_hex (first_candidate items)"
proof (induction items)
  case Nil
  then show ?case by (simp add: serialize_script_def)
next
  case (Cons i items)
  then have wf: "well_formed_item i" and rest: "list_all well_formed_item items"
    by simp_all
  have "serialize_script (i # items) = serialize_item i @ serialize_script items"
    by (simp add: serialize_script_def)
  then show ?case
    using scan_item [OF wf, of "serialize_script items"] Cons.IH [OF rest]
    by (simp split: option.splits)
qed

lemma extract_serialized:
  "list_all well_formed_item items \<Longrightarrow>
   extract_preimage_from_scriptsig (bytes_hex (serialize_script items))
     = map_option bytes_hex (first_candidate items)"
  by (simp add: extract_preimage_from_scriptsig_def fromhex_bytes_hex scan_script)

lemma bytes_hex_ones:
  "bytes_hex (replicate 32 17) = ''1111111111111111111111111111111111111111111111111111111111111111''"
  by (simp add: replicate_numeral hex_eval)

lemma extract_single_push:
  "extract_preimage_from_scriptsig
     ''201111111111111111111111111111111111111111111111111111111111111111''
     = Some ''1111111111111111111111111111111111111111111111111111111111111111''"
proof -
  have w: "list_all well_formed_item [DirectPush (replicate 32 17)]"
    by simp
  have "replicate 32 (17 :: byte) \<noteq> replicate 32 0"
    by (simp add: replicate_numeral)
  then have c: "first_candidate [DirectPush (replicate 32 17)] = Some (replicate 32 17)"
    by simp
  have "hex_of_byte 32 = ''20''"
    by (simp add: hex_of_byte_def hexchar_def)
  then have h: "bytes_hex (serialize_script [DirectPush (replicate 32 17)])
          = ''201111111111111111111111111111111111111111111111111111111111111111''"
    by (simp add: serialize_script_def bytes_hex_Cons bytes_hex_ones)
  from extract_serialized [OF w] show ?thesis
    unfolding h c by (simp add: bytes_hex_ones)
qed

text \<open>
  C6, as stated, fails: with the hashlock of the pending swap of the scenarios as the
  only open one, a script-sig whose single push does not hash to it is still answered
  with that push. The parser is given no hashlock and computes no hash.
\<close>

theorem scriptsig_hash_unchecked_counterexample:
  "extract_preimage_from_scriptsig
     ''201111111111111111111111111111111111111111111111111111111111111111''
     = Some ''1111111111111111111111111111111111111111111111111111111111111111'' \<and>
   \<not> verify_preimage ''ec4916dd28fc4c10d78e287ca5d9cc51ee1ae73cbfde08c6b37324cbfaac8bc5''
       ''1111111111111111111111111111111111111111111111111111111111111111''"
  using extract_single_push ones_do_not_open by blast

text \<open>
  C6, amended. The parser decodes the hex script-sig and walks its items (\<^verbatim>\<open>OP_0\<close>,
  direct pushes, \<^verbatim>\<open>OP_PUSHDATA1\<close>, \<^verbatim>\<open>OP_PUSHDATA2\<close>, other opcodes). For a well-formed
  script-sig it returns, in hex, the first direct push of exactly 32 bytes that is not
  all zero and does not begin with 0x02 or 0x03, whatever its SHA-256; every other item
  is skipped, signatures by their length and \<^verbatim>\<open>PUSHDATA\<close> pushes whatever their length.
  With no such push, or for a text that is not hex, it returns nothing.
\<close>

theorem scriptsig_first_candidate:
  "(list_all well_formed_item items \<longrightarrow>
      extract_preimage_from_scriptsig (bytes_hex (serialize_script items))
        = map_option bytes_hex (first_candidate items)) \<and>
   (fromhex s = None \<longrightarrow> extract_preimage_from_scriptsig s = None)"
proof (intro conjI impI)
  assume "list_all well_formed_item items"
  then show "extract_preimage_from_scriptsig (bytes_hex (serialize_script items))
        = map_option bytes_hex (first_candidate items)"
    by (rule extract_serialized)
next
  assume "fromhex s = None"
  then show "extract_preimage_from_scriptsig s = None"
    by (simp add: extract_preimage_from_scriptsig_def)
qed

text \<open>
  A claim script-sig: a signature of 71 bytes, the preimage, \<^verbatim>\<open>OP_TRUE\<close> and a redeem
  script of 80 bytes pushed with \<^verbatim>\<open>OP_PUSHDATA1\<close>.
\<close>

theorem scriptsig_first_candidate_witness:
  "list_all well_formed_item
     [DirectPush (replicate 71 48), DirectPush (replicate 32 17), OpCode 81,
      PushData1 (replicate 80 172)] \<and>
   extract_preimage_from_scriptsig
     (bytes_hex (serialize_script
        [DirectPush (replicate 71 48), DirectPush (replicate 32 17), OpCode 81,
         PushData1 (replicate 80 172)]))
     = Some ''1111111111111111111111111111111111111111111111111111111111111111'' \<and>
   fromhex ''zz'' = None \<and>
   extract_preimage_from_scriptsig ''zz'' = None"
proof -
  let ?items = "[DirectPush (replicate 71 48), DirectPush (replicate 32 17), OpCode 81,
                 PushData1 (replicate 80 172)]"
  have w: "list_all well_formed_item ?items"
    by simp
  have "replicate 32 (17 :: byte) \<noteq> replicate 32 0"
    by (simp add: replicate_numeral)
  then have c: "first_candidate ?items = Some (replicate 32 17)"
    by simp
  have z: "fromhex ''zz'' = None"
    by (simp add: hexval_def py_isspace_def)
  from w c z scriptsig_first_candidate [of ?items "''zz''"] show ?thesis
    by (simp add: bytes_hex_ones)
qed

end
